theory Spec2Isabelle
  imports Complex_Main
begin

section \<open>Architecture of the 3D residual network\<close>

text \<open>
  The notebook \<^verbatim>\<open>model_train.ipynb\<close> builds a 3D ResNet out of PyTorch modules. This
  section models the construction code (\<^verbatim>\<open>conv3x3x3\<close>, \<^verbatim>\<open>conv1x1x1\<close>, the two block
  classes, \<^verbatim>\<open>ResNet.__init__\<close>, \<^verbatim>\<open>ResNet._make_layer\<close>, \<^verbatim>\<open>resnet101\<close>) at the level of
  module configurations: which modules are created, with which channel counts, kernel
  sizes, strides and paddings. Weights play no role here. Python integers that count
  channels, blocks and strides are modelled as \<^typ>\<open>nat\<close>.
\<close>

datatype error = IndexError | ValueError | RuntimeError

text \<open>\<^verbatim>\<open>nn.Conv3d(in, out, kernel_size=k, stride=s, padding=p, bias=False)\<close>, cubic kernel.\<close>

record conv3d =
  in_channels :: nat
  out_channels :: nat
  kernel_size :: nat
  conv_stride :: nat
  padding :: nat

definition conv3x3x3 :: "nat \<Rightarrow> nat \<Rightarrow> nat \<Rightarrow> conv3d" where
  "conv3x3x3 in_planes out_planes stride =
     \<lparr>in_channels = in_planes, out_channels = out_planes, kernel_size = 3,
      conv_stride = stride, padding = 1\<rparr>"

definition conv1x1x1 :: "nat \<Rightarrow> nat \<Rightarrow> nat \<Rightarrow> conv3d" where
  "conv1x1x1 in_planes out_planes stride =
     \<lparr>in_channels = in_planes, out_channels = out_planes, kernel_size = 1,
      conv_stride = stride, padding = 0\<rparr>"

text \<open>
  The two dropout modules of PyTorch that the blocks use: \<^verbatim>\<open>nn.Dropout(p)\<close> draws one
  keep/drop decision per element, \<^verbatim>\<open>nn.Dropout3d(p)\<close> one per (sample, channel) pair.
\<close>

datatype dropout_module = Dropout real | Dropout3d real

fun dropout_p :: "dropout_module \<Rightarrow> real" where
  "dropout_p (Dropout p) = p"
| "dropout_p (Dropout3d p) = p"

text \<open>
  A projection shortcut is \<^verbatim>\<open>nn.Sequential(conv1x1x1(...), nn.BatchNorm3d(n))\<close>: the
  convolution and the number of features of the normalisation.
\<close>

type_synonym downsample = "conv3d \<times> nat"

text \<open>The fields \<^verbatim>\<open>BasicBlock.__init__\<close> assigns; a \<^verbatim>\<open>BatchNorm3d\<close> is its feature count.\<close>

record basic_block =
  bb_conv1 :: conv3d
  bb_bn1 :: nat
  bb_conv2 :: conv3d
  bb_bn2 :: nat
  bb_downsample :: "downsample option"
  bb_stride :: nat
  bb_dropout :: dropout_module

text \<open>The fields \<^verbatim>\<open>Bottleneck.__init__\<close> assigns.\<close>

record bottleneck =
  bt_conv1 :: conv3d
  bt_bn1 :: nat
  bt_conv2 :: conv3d
  bt_bn2 :: nat
  bt_conv3 :: conv3d
  bt_bn3 :: nat
  bt_downsample :: "downsample option"
  bt_stride :: nat
  bt_dropout :: dropout_module

datatype block_type = BasicBlock | Bottleneck

datatype block = Basic basic_block | Bottle bottleneck

fun expansion :: "block_type \<Rightarrow> nat" where
  "expansion BasicBlock = 1"
| "expansion Bottleneck = 4"

text \<open>
  Calling the class \<^verbatim>\<open>block(in_planes, planes, stride, downsample, dropout_rate)\<close>.
  \<^verbatim>\<open>BasicBlock\<close> creates an \<^verbatim>\<open>nn.Dropout\<close>, \<^verbatim>\<open>Bottleneck\<close> an \<^verbatim>\<open>nn.Dropout3d\<close>.
\<close>

fun block_init :: "block_type \<Rightarrow> nat \<Rightarrow> nat \<Rightarrow> nat \<Rightarrow> downsample option \<Rightarrow> real \<Rightarrow> block" where
  "block_init BasicBlock in_planes planes stride ds dropout_rate =
     Basic \<lparr>bb_conv1 = conv3x3x3 in_planes planes stride, bb_bn1 = planes,
            bb_conv2 = conv3x3x3 planes planes 1, bb_bn2 = planes,
            bb_downsample = ds, bb_stride = stride, bb_dropout = Dropout dropout_rate\<rparr>"
| "block_init Bottleneck in_planes planes stride ds dropout_rate =
     Bottle \<lparr>bt_conv1 = conv1x1x1 in_planes planes 1, bt_bn1 = planes,
             bt_conv2 = conv3x3x3 planes planes stride, bt_bn2 = planes,
             bt_conv3 = conv1x1x1 planes (planes * expansion Bottleneck) 1,
             bt_bn3 = planes * expansion Bottleneck,
             bt_downsample = ds, bt_stride = stride, bt_dropout = Dropout3d dropout_rate\<rparr>"

text \<open>What a constructed block records of its arguments.\<close>

fun block_in_planes :: "block \<Rightarrow> nat" where
  "block_in_planes (Basic b) = in_channels (bb_conv1 b)"
| "block_in_planes (Bottle b) = in_channels (bt_conv1 b)"

fun block_stride :: "block \<Rightarrow> nat" where
  "block_stride (Basic b) = bb_stride b"
| "block_stride (Bottle b) = bt_stride b"

fun block_downsample :: "block \<Rightarrow> downsample option" where
  "block_downsample (Basic b) = bb_downsample b"
| "block_downsample (Bottle b) = bt_downsample b"

fun block_dropout :: "block \<Rightarrow> dropout_module" where
  "block_dropout (Basic b) = bb_dropout b"
| "block_dropout (Bottle b) = bt_dropout b"

text \<open>
  \<^verbatim>\<open>ResNet._make_layer(self, block, planes, blocks, stride, dropout_rate)\<close>. The attribute
  \<^verbatim>\<open>self.inplanes\<close> is read and written, so it is passed in and returned. The loop
  \<^verbatim>\<open>for _ in range(1, blocks)\<close> runs \<open>blocks - 1\<close> times (not at all when \<open>blocks\<close> is 0
  or 1), each time with the default stride 1 and no downsample.
\<close>

definition make_layer ::
  "nat \<Rightarrow> block_type \<Rightarrow> nat \<Rightarrow> nat \<Rightarrow> nat \<Rightarrow> real \<Rightarrow> block list \<times> nat" where
  "make_layer inplanes bt planes blocks stride dropout_rate =
     (let downsample =
            (if stride \<noteq> 1 \<or> inplanes \<noteq> planes * expansion bt
             then Some (conv1x1x1 inplanes (planes * expansion bt) stride,
                        planes * expansion bt)
             else None);
          first = block_init bt inplanes planes stride downsample dropout_rate;
          inplanes' = planes * expansion bt
      in (first # replicate (blocks - 1) (block_init bt inplanes' planes 1 None dropout_rate),
          inplanes'))"

text \<open>
  The fields of a \<^verbatim>\<open>ResNet\<close>. \<^verbatim>\<open>MaxPool3d(kernel_size=3, stride=2, padding=1)\<close> is the
  triple of its arguments, \<^verbatim>\<open>Linear(i, o)\<close> the pair. \<^verbatim>\<open>training\<close> is the flag every
  \<^verbatim>\<open>nn.Module\<close> carries; it is \<^verbatim>\<open>True\<close> after construction.
\<close>

record resnet =
  r_inplanes :: nat
  r_conv1 :: conv3d
  r_bn1 :: nat
  r_maxpool :: "nat \<times> nat \<times> nat"
  r_layer1 :: "block list"
  r_layer2 :: "block list"
  r_layer3 :: "block list"
  r_layer4 :: "block list"
  r_fc :: "nat \<times> nat"
  r_training :: bool

text \<open>
  \<^verbatim>\<open>ResNet.__init__(self, block, layers, num_classes=1000, dropout_rate=0.0, in_channels=3)\<close>.
  A keyword argument that the caller leaves out is \<open>None\<close> here and takes the default of
  the signature. \<^verbatim>\<open>layers[0]\<close> .. \<^verbatim>\<open>layers[3]\<close> raise \<^verbatim>\<open>IndexError\<close> on a shorter list. The
  dropout modules raise \<^verbatim>\<open>ValueError\<close> for a probability outside \<open>[0, 1]\<close>; the first
  one is created inside the first \<^verbatim>\<open>_make_layer\<close> call, after the length of \<open>layers\<close>
  has been used by \<^verbatim>\<open>layers[0]\<close>.
\<close>

definition ResNet_init ::
  "block_type \<Rightarrow> nat list \<Rightarrow> nat option \<Rightarrow> real option \<Rightarrow> nat option \<Rightarrow> error + resnet" where
  "ResNet_init bt layers num_classes_kw dropout_rate_kw in_channels_kw =
     (let num_classes = (case num_classes_kw of None \<Rightarrow> 1000 | Some n \<Rightarrow> n);
          dropout_rate = (case dropout_rate_kw of None \<Rightarrow> 0 | Some p \<Rightarrow> p);
          in_ch = (case in_channels_kw of None \<Rightarrow> 3 | Some c \<Rightarrow> c)
      in if layers = [] then Inl IndexError
         else if dropout_rate < 0 \<or> 1 < dropout_rate then Inl ValueError
         else if length layers < 4 then Inl IndexError
         else
           (let (l1, ip1) = make_layer 64 bt 64 (layers ! 0) 1 dropout_rate;
                (l2, ip2) = make_layer ip1 bt 128 (layers ! 1) 2 dropout_rate;
                (l3, ip3) = make_layer ip2 bt 256 (layers ! 2) 2 dropout_rate;
                (l4, ip4) = make_layer ip3 bt 512 (layers ! 3) 2 dropout_rate
            in Inr \<lparr>r_inplanes = ip4,
                    r_conv1 = \<lparr>in_channels = in_ch, out_channels = 64, kernel_size = 7,
                             conv_stride = 2, padding = 3\<rparr>,
                    r_bn1 = 64,
                    r_maxpool = (3, 2, 1),
                    r_layer1 = l1, r_layer2 = l2, r_layer3 = l3, r_layer4 = l4,
                    r_fc = (512 * expansion bt, num_classes),
                    r_training = True\<rparr>))"

text \<open>
  \<^verbatim>\<open>def resnet101(**kwargs): return ResNet(Bottleneck, [3, 4, 23, 3], **kwargs)\<close>, with
  the three keywords \<^verbatim>\<open>ResNet.__init__\<close> accepts.
\<close>

definition resnet101 :: "nat option \<Rightarrow> real option \<Rightarrow> nat option \<Rightarrow> error + resnet" where
  "resnet101 num_classes_kw dropout_rate_kw in_channels_kw =
     ResNet_init Bottleneck [3, 4, 23, 3] num_classes_kw dropout_rate_kw in_channels_kw"

text \<open>The configuration values the claims speak of.\<close>

definition num_classes_of :: "resnet \<Rightarrow> nat" where
  "num_classes_of r = snd (r_fc r)"

definition in_channels_of :: "resnet \<Rightarrow> nat" where
  "in_channels_of r = in_channels (r_conv1 r)"

text \<open>The backbone of the notebook's \<^verbatim>\<open>model\<close>: \<^verbatim>\<open>resnet101(num_classes=1, in_channels=1)\<close>.\<close>

definition model_resnet :: "error + resnet" where
  "model_resnet = resnet101 (Some 1) None (Some 1)"

text \<open>\<^verbatim>\<open>model.train()\<close> and \<^verbatim>\<open>model.eval()\<close> set the flag of the module and all its children.\<close>

definition train_mode :: "resnet \<Rightarrow> resnet" where
  "train_mode r = r\<lparr>r_training := True\<rparr>"

definition eval_mode :: "resnet \<Rightarrow> resnet" where
  "eval_mode r = r\<lparr>r_training := False\<rparr>"

section \<open>Shapes through the forward pass\<close>

text \<open>
  The forward methods are modelled on tensor shapes (\<^verbatim>\<open>x.size()\<close>, a list of
  dimensions): each PyTorch module either raises or maps the shape of its input to
  the shape of its output. The checks are those PyTorch 1.11 (the version the README
  names) makes in the forward call of each module.
\<close>

type_synonym shape = "nat list"

text \<open>Running shape functions one after the other; the first error ends the pass.\<close>

fun seq_e :: "('a \<Rightarrow> error + 'a) list \<Rightarrow> 'a \<Rightarrow> error + 'a" where
  "seq_e [] x = Inr x"
| "seq_e (f # fs) x = (case f x of Inl e \<Rightarrow> Inl e | Inr y \<Rightarrow> seq_e fs y)"

text \<open>
  Output length of a convolution or a pooling window along one axis, floor mode:
  \<open>\<lfloor>(n + 2p - k) / s\<rfloor> + 1\<close>. The callers check \<open>k \<le> n + 2p\<close> and \<open>0 < s\<close> first.
\<close>

definition out_size :: "nat \<Rightarrow> nat \<Rightarrow> nat \<Rightarrow> nat \<Rightarrow> nat" where
  "out_size n k s p = (n + 2 * p - k) div s + 1"

text \<open>
  \<^verbatim>\<open>nn.Conv3d.forward\<close>: the input is \<open>(N, C, D, H, W)\<close> or, unbatched, \<open>(C, D, H, W)\<close>;
  \<^verbatim>\<open>RuntimeError\<close> when the channel count is not \<open>in_channels\<close>, when the stride is not
  positive, or when the padded input is smaller than the kernel.
\<close>

definition conv_spatial_ok :: "conv3d \<Rightarrow> nat \<Rightarrow> bool" where
  "conv_spatial_ok c n = (kernel_size c \<le> n + 2 * padding c)"

definition conv_out :: "conv3d \<Rightarrow> nat \<Rightarrow> nat" where
  "conv_out c n = out_size n (kernel_size c) (conv_stride c) (padding c)"

fun conv3d_shape :: "conv3d \<Rightarrow> shape \<Rightarrow> error + shape" where
  "conv3d_shape c [b, ch, d, h, w] =
     (if ch \<noteq> in_channels c \<or> conv_stride c = 0 \<or>
         \<not> conv_spatial_ok c d \<or> \<not> conv_spatial_ok c h \<or> \<not> conv_spatial_ok c w
      then Inl RuntimeError
      else Inr [b, out_channels c, conv_out c d, conv_out c h, conv_out c w])"
| "conv3d_shape c [ch, d, h, w] =
     (if ch \<noteq> in_channels c \<or> conv_stride c = 0 \<or>
         \<not> conv_spatial_ok c d \<or> \<not> conv_spatial_ok c h \<or> \<not> conv_spatial_ok c w
      then Inl RuntimeError
      else Inr [out_channels c, conv_out c d, conv_out c h, conv_out c w])"
| "conv3d_shape c sh = Inl RuntimeError"

text \<open>
  \<^verbatim>\<open>nn.BatchNorm3d.forward\<close>, in this order: \<^verbatim>\<open>_check_input_dim\<close> raises \<^verbatim>\<open>ValueError\<close>
  unless the input is 5-dimensional; in training mode \<^verbatim>\<open>_verify_batch_size\<close> raises
  \<^verbatim>\<open>ValueError\<close> ("Expected more than 1 value per channel when training") when the
  product of all dimensions but the channel is 1 (\<open>single_value_per_channel\<close>); the kernel raises \<^verbatim>\<open>RuntimeError\<close>
  when the channel count is not \<open>num_features\<close>.
\<close>

definition single_value_per_channel :: "bool \<Rightarrow> nat \<Rightarrow> nat \<Rightarrow> nat \<Rightarrow> nat \<Rightarrow> bool" where
  "single_value_per_channel training b d h w = (training \<and> b * d * h * w = 1)"

fun batch_norm3d_shape :: "bool \<Rightarrow> nat \<Rightarrow> shape \<Rightarrow> error + shape" where
  "batch_norm3d_shape training num_features [b, ch, d, h, w] =
     (if single_value_per_channel training b d h w then Inl ValueError
      else if ch \<noteq> num_features then Inl RuntimeError
      else Inr [b, ch, d, h, w])"
| "batch_norm3d_shape training num_features sh = Inl ValueError"

text \<open>\<^verbatim>\<open>nn.ReLU\<close> and the dropout modules accept every shape and keep it.\<close>

definition relu_shape :: "shape \<Rightarrow> error + shape" where
  "relu_shape sh = Inr sh"

definition dropout_shape :: "dropout_module \<Rightarrow> shape \<Rightarrow> error + shape" where
  "dropout_shape m sh = Inr sh"

text \<open>
  \<^verbatim>\<open>nn.MaxPool3d(kernel_size=k, stride=s, padding=p)\<close>, floor mode, on a batched or
  unbatched input; \<^verbatim>\<open>RuntimeError\<close> when an output length would not be positive.
\<close>

fun max_pool3d_shape :: "nat \<times> nat \<times> nat \<Rightarrow> shape \<Rightarrow> error + shape" where
  "max_pool3d_shape (k, s, p) [b, ch, d, h, w] =
     (if s = 0 \<or> d + 2 * p < k \<or> h + 2 * p < k \<or> w + 2 * p < k then Inl RuntimeError
      else Inr [b, ch, out_size d k s p, out_size h k s p, out_size w k s p])"
| "max_pool3d_shape (k, s, p) [ch, d, h, w] =
     (if s = 0 \<or> d + 2 * p < k \<or> h + 2 * p < k \<or> w + 2 * p < k then Inl RuntimeError
      else Inr [ch, out_size d k s p, out_size h k s p, out_size w k s p])"
| "max_pool3d_shape kspec sh = Inl RuntimeError"

text \<open>
  \<^verbatim>\<open>out += residual\<close>: the in-place addition keeps the shape of \<^verbatim>\<open>out\<close> and needs
  \<^verbatim>\<open>residual\<close> to broadcast to it: aligned at the last axis, each dimension of the
  residual is the one of \<^verbatim>\<open>out\<close> or 1. Otherwise \<^verbatim>\<open>RuntimeError\<close>.
\<close>

definition broadcastable_to :: "shape \<Rightarrow> shape \<Rightarrow> bool" where
  "broadcastable_to r out =
     (length r \<le> length out \<and>
      list_all2 (\<lambda>a b. a = b \<or> a = 1) (rev r) (take (length r) (rev out)))"

definition iadd_shape :: "shape \<Rightarrow> shape \<Rightarrow> error + shape" where
  "iadd_shape out residual = (if broadcastable_to residual out then Inr out else Inl RuntimeError)"

text \<open>The \<^verbatim>\<open>downsample\<close> of a block on the block's input: the input itself when it is \<^verbatim>\<open>None\<close>.\<close>

fun residual_shape :: "bool \<Rightarrow> downsample option \<Rightarrow> shape \<Rightarrow> error + shape" where
  "residual_shape training None x = Inr x"
| "residual_shape training (Some (c, n)) x =
     seq_e [conv3d_shape c, batch_norm3d_shape training n] x"

text \<open>\<^verbatim>\<open>BasicBlock.forward\<close> and \<^verbatim>\<open>Bottleneck.forward\<close>.\<close>

definition BasicBlock_forward_shape :: "bool \<Rightarrow> basic_block \<Rightarrow> shape \<Rightarrow> error + shape" where
  "BasicBlock_forward_shape training b x =
     (case seq_e [conv3d_shape (bb_conv1 b), batch_norm3d_shape training (bb_bn1 b),
                  relu_shape, dropout_shape (bb_dropout b),
                  conv3d_shape (bb_conv2 b), batch_norm3d_shape training (bb_bn2 b)] x of
        Inl e \<Rightarrow> Inl e
      | Inr out \<Rightarrow>
          (case residual_shape training (bb_downsample b) x of
             Inl e \<Rightarrow> Inl e
           | Inr residual \<Rightarrow> seq_e [\<lambda>out. iadd_shape out residual, relu_shape] out))"

definition Bottleneck_forward_shape :: "bool \<Rightarrow> bottleneck \<Rightarrow> shape \<Rightarrow> error + shape" where
  "Bottleneck_forward_shape training b x =
     (case seq_e [conv3d_shape (bt_conv1 b), batch_norm3d_shape training (bt_bn1 b),
                  relu_shape, dropout_shape (bt_dropout b),
                  conv3d_shape (bt_conv2 b), batch_norm3d_shape training (bt_bn2 b),
                  relu_shape, dropout_shape (bt_dropout b),
                  conv3d_shape (bt_conv3 b), batch_norm3d_shape training (bt_bn3 b)] x of
        Inl e \<Rightarrow> Inl e
      | Inr out \<Rightarrow>
          (case residual_shape training (bt_downsample b) x of
             Inl e \<Rightarrow> Inl e
           | Inr residual \<Rightarrow> seq_e [\<lambda>out. iadd_shape out residual, relu_shape] out))"

fun block_forward_shape :: "bool \<Rightarrow> block \<Rightarrow> shape \<Rightarrow> error + shape" where
  "block_forward_shape training (Basic b) x = BasicBlock_forward_shape training b x"
| "block_forward_shape training (Bottle b) x = Bottleneck_forward_shape training b x"

text \<open>A stage is an \<^verbatim>\<open>nn.Sequential\<close> of its blocks.\<close>

definition layer_forward_shape :: "bool \<Rightarrow> block list \<Rightarrow> shape \<Rightarrow> error + shape" where
  "layer_forward_shape training blocks x = seq_e (map (block_forward_shape training) blocks) x"

text \<open>
  \<^verbatim>\<open>nn.AdaptiveAvgPool3d((1, 1, 1))\<close>: a batched or unbatched input whose dimensions
  after the first are all positive; \<^verbatim>\<open>RuntimeError\<close> otherwise.
\<close>

fun adaptive_avg_pool3d_shape :: "shape \<Rightarrow> error + shape" where
  "adaptive_avg_pool3d_shape [b, ch, d, h, w] =
     (if ch = 0 \<or> d = 0 \<or> h = 0 \<or> w = 0 then Inl RuntimeError else Inr [b, ch, 1, 1, 1])"
| "adaptive_avg_pool3d_shape [ch, d, h, w] =
     (if d = 0 \<or> h = 0 \<or> w = 0 then Inl RuntimeError else Inr [ch, 1, 1, 1])"
| "adaptive_avg_pool3d_shape sh = Inl RuntimeError"

text \<open>\<^verbatim>\<open>torch.flatten(x, 1)\<close>: \<^verbatim>\<open>IndexError\<close> when there is no axis 1.\<close>

fun flatten_shape :: "shape \<Rightarrow> error + shape" where
  "flatten_shape (b # d # ds) = Inr [b, prod_list (d # ds)]"
| "flatten_shape sh = Inl IndexError"

text \<open>\<^verbatim>\<open>nn.Linear(i, o)\<close>: the last axis must have length \<open>i\<close> and becomes \<open>o\<close>.\<close>

fun linear_shape :: "nat \<times> nat \<Rightarrow> shape \<Rightarrow> error + shape" where
  "linear_shape (i, outf) sh =
     (if sh = [] \<or> last sh \<noteq> i then Inl RuntimeError else Inr (butlast sh @ [outf]))"

text \<open>\<^verbatim>\<open>ResNet.forward\<close>.\<close>

definition ResNet_forward_shape :: "resnet \<Rightarrow> shape \<Rightarrow> error + shape" where
  "ResNet_forward_shape r x =
     seq_e [conv3d_shape (r_conv1 r),
            batch_norm3d_shape (r_training r) (r_bn1 r),
            relu_shape,
            max_pool3d_shape (r_maxpool r),
            layer_forward_shape (r_training r) (r_layer1 r),
            layer_forward_shape (r_training r) (r_layer2 r),
            layer_forward_shape (r_training r) (r_layer3 r),
            layer_forward_shape (r_training r) (r_layer4 r),
            adaptive_avg_pool3d_shape,
            flatten_shape,
            linear_shape (r_fc r)] x"

section \<open>Tensors and the losses\<close>

text \<open>
  A tensor is its shape and its elements in row-major order, as a contiguous PyTorch
  tensor stores them. Elements are real numbers: the rounding of floating-point
  arithmetic is not modelled. A tensor is well formed when it has as many elements as
  its shape says.
\<close>

record tensor =
  tshape :: "nat list"
  tdata :: "real list"

definition well_formed :: "tensor \<Rightarrow> bool" where
  "well_formed t = (length (tdata t) = prod_list (tshape t))"

text \<open>The \<open>r\<close>-th run of \<open>w\<close> consecutive elements: one position of the leading axes.\<close>

definition row :: "nat \<Rightarrow> nat \<Rightarrow> real list \<Rightarrow> real list" where
  "row w r xs = take w (drop (r * w) xs)"

text \<open>\<^verbatim>\<open>torch.norm(v, 2)\<close> of a vector: the square root of the sum of squares.\<close>

definition norm2 :: "real list \<Rightarrow> real" where
  "norm2 v = sqrt (sum_list (map (\<lambda>x. x\<^sup>2) v))"

text \<open>The default \<^verbatim>\<open>eps=1e-6\<close> of \<^verbatim>\<open>F.pairwise_distance\<close>.\<close>

definition eps :: real where
  "eps = 1 / 10 ^ 6"

text \<open>
  \<^verbatim>\<open>F.pairwise_distance(x1, x2, p=2)\<close> of PyTorch 1.11 computes
  \<^verbatim>\<open>torch.norm(x1 - x2 + eps, 2, dim=-1)\<close>: the norm is taken along the last axis only,
  whatever the number of axes, and the result has the shape of the inputs without the
  last axis. The model is for two inputs of one shape with at least one axis (the
  case of the notebook, where both come from the same feature extractor); broadcasting
  of different shapes is not modelled.
\<close>

definition pairwise_distance :: "tensor \<Rightarrow> tensor \<Rightarrow> tensor" where
  "pairwise_distance x1 x2 =
     (let diff = map2 (\<lambda>a b. a - b + eps) (tdata x1) (tdata x2);
          w = last (tshape x1);
          lead = butlast (tshape x1)
      in \<lparr>tshape = lead,
          tdata = map (\<lambda>r. norm2 (row w r diff)) [0..<prod_list lead]\<rparr>)"

text \<open>\<^verbatim>\<open>torch.clamp(margin - distances, min=0.0)\<close>, element by element.\<close>

definition rsub_scalar :: "real \<Rightarrow> tensor \<Rightarrow> tensor" where
  "rsub_scalar c t = t\<lparr>tdata := map (\<lambda>d. c - d) (tdata t)\<rparr>"

definition clamp_min :: "tensor \<Rightarrow> real \<Rightarrow> tensor" where
  "clamp_min t lo = t\<lparr>tdata := map (\<lambda>v. max lo v) (tdata t)\<rparr>"

text \<open>
  \<^verbatim>\<open>torch.mean(t)\<close>: the sum of all elements over their number. On a tensor with no
  element the result is \<^verbatim>\<open>nan\<close>, which is \<open>None\<close> here.
\<close>

definition mean :: "tensor \<Rightarrow> real option" where
  "mean t = (if tdata t = [] then None
             else Some (sum_list (tdata t) / real (length (tdata t))))"

text \<open>\<^verbatim>\<open>contrastive_loss(features_x1, features_x2, margin)\<close>.\<close>

definition contrastive_loss :: "tensor \<Rightarrow> tensor \<Rightarrow> real \<Rightarrow> real option" where
  "contrastive_loss features_x1 features_x2 margin =
     (let distances = pairwise_distance features_x1 features_x2
      in mean (clamp_min (rsub_scalar margin distances) 0))"

text \<open>
  Broadcasting, as PyTorch does it for two shapes: aligned at the last axis, two
  dimensions go together when they are equal or one of them is 1, and an axis that one
  shape lacks counts as 1. \<open>bshape_rev\<close> works on the reversed shapes, last axis first.
\<close>

fun bshape_rev :: "nat list \<Rightarrow> nat list \<Rightarrow> nat list option" where
  "bshape_rev [] ys = Some ys"
| "bshape_rev (x # xs) [] = Some (x # xs)"
| "bshape_rev (x # xs) (y # ys) =
     (if x = y \<or> y = 1 then map_option (\<lambda>r. x # r) (bshape_rev xs ys)
      else if x = 1 then map_option (\<lambda>r. y # r) (bshape_rev xs ys)
      else None)"

definition broadcast_shapes :: "nat list \<Rightarrow> nat list \<Rightarrow> nat list option" where
  "broadcast_shapes s t = map_option rev (bshape_rev (rev s) (rev t))"

text \<open>
  The multi-index of the \<open>i\<close>-th element of a row-major tensor of shape \<open>sh\<close>, and back.
\<close>

fun unravel :: "nat list \<Rightarrow> nat \<Rightarrow> nat list" where
  "unravel [] i = []"
| "unravel (d # ds) i = (i div prod_list ds) # unravel ds (i mod prod_list ds)"

fun ravel :: "nat list \<Rightarrow> nat list \<Rightarrow> nat" where
  "ravel (d # ds) (k # ks) = k * prod_list ds + ravel ds ks"
| "ravel ds ks = 0"

text \<open>
  \<^verbatim>\<open>t.expand(out)\<close> for a shape \<open>out\<close> that the shape of \<open>t\<close> broadcasts to: the element at a
  multi-index of the result is the element of \<open>t\<close> at the same multi-index, without the
  axes \<open>t\<close> lacks and with 0 along every axis where \<open>t\<close> has length 1.
\<close>

definition expand_index :: "nat list \<Rightarrow> nat list \<Rightarrow> nat \<Rightarrow> nat" where
  "expand_index src out i =
     (let idx = drop (length out - length src) (unravel out i)
      in ravel src (map2 (\<lambda>d k. if d = 1 then 0 else k) src idx))"

definition expand :: "tensor \<Rightarrow> nat list \<Rightarrow> tensor" where
  "expand t out =
     \<lparr>tshape = out,
      tdata = map (\<lambda>i. tdata t ! expand_index (tshape t) out i) [0..<prod_list out]\<rparr>"

text \<open>
  \<^verbatim>\<open>torch.broadcast_tensors(a, b)\<close>: both expanded to the common shape; \<^verbatim>\<open>RuntimeError\<close> when
  the shapes do not broadcast. The same happens inside every element-wise operation on
  two tensors, such as the subtraction \<^verbatim>\<open>x1 - x2\<close>.
\<close>

definition broadcast_tensors :: "tensor \<Rightarrow> tensor \<Rightarrow> error + tensor \<times> tensor" where
  "broadcast_tensors a b =
     (case broadcast_shapes (tshape a) (tshape b) of
        None \<Rightarrow> Inl RuntimeError
      | Some sh \<Rightarrow> Inr (expand a sh, expand b sh))"

text \<open>
  \<^verbatim>\<open>mse_loss_fn = torch.nn.MSELoss()\<close>, default reduction \<^verbatim>\<open>'mean'\<close>. \<^verbatim>\<open>F.mse_loss\<close> broadcasts
  input and target against each other (with a warning when their sizes differ, and
  \<^verbatim>\<open>RuntimeError\<close> when they do not broadcast) and returns the mean of the squared
  differences of the broadcast tensors.
\<close>

definition mse_loss_fn :: "tensor \<Rightarrow> tensor \<Rightarrow> error + real option" where
  "mse_loss_fn input target =
     (case broadcast_tensors input target of
        Inl e \<Rightarrow> Inl e
      | Inr (expanded_input, expanded_target) \<Rightarrow>
          Inr (mean \<lparr>tshape = tshape expanded_input,
                     tdata = map2 (\<lambda>a b. (a - b)\<^sup>2) (tdata expanded_input)
                                                          (tdata expanded_target)\<rparr>))"

text \<open>Adding two scalar results: \<^verbatim>\<open>nan\<close> plus anything is \<^verbatim>\<open>nan\<close>.\<close>

fun add_scalar :: "real option \<Rightarrow> real option \<Rightarrow> real option" where
  "add_scalar (Some a) (Some b) = Some (a + b)"
| "add_scalar a b = None"

text \<open>
  The reading of the specification, for comparison with \<open>contrastive_loss\<close>: the
  distance of sample \<open>i\<close> is the Euclidean distance between the two flattened feature
  vectors of that sample (all elements after the batch axis), and the loss is the mean
  of the hinge over the samples of the batch.
\<close>

definition euclidean_distance :: "real list \<Rightarrow> real list \<Rightarrow> real" where
  "euclidean_distance u v = sqrt (sum_list (map2 (\<lambda>a b. (a - b)\<^sup>2) u v))"

definition spec_sample_distance :: "tensor \<Rightarrow> tensor \<Rightarrow> nat \<Rightarrow> real" where
  "spec_sample_distance x1 x2 i =
     (let n = prod_list (tl (tshape x1))
      in euclidean_distance (row n i (tdata x1)) (row n i (tdata x2)))"

definition spec_contrastive_loss :: "tensor \<Rightarrow> tensor \<Rightarrow> real \<Rightarrow> real option" where
  "spec_contrastive_loss x1 x2 margin =
     (let batch = hd (tshape x1)
      in if batch = 0 then None
         else Some (sum_list (map (\<lambda>i. max 0 (margin - spec_sample_distance x1 x2 i)) [0..<batch])
                    / real batch))"

text \<open>The distances \<open>contrastive_loss\<close> works on: the elements \<^verbatim>\<open>F.pairwise_distance\<close> returns.\<close>

definition distances_of :: "tensor \<Rightarrow> tensor \<Rightarrow> real list" where
  "distances_of x1 x2 = tdata (pairwise_distance x1 x2)"

section \<open>The forward passes on values\<close>

text \<open>
  The numeric kernels of PyTorch (convolution, normalisation, pooling, the linear layer,
  the in-place addition) are not part of the repository. A module with fixed weights is
  modelled by the function it computes, which may raise; the forward methods are
  modelled over arbitrary such functions. What the source decides is modelled as
  written: the order of the calls, the shortcut, the mode flag, where dropout sits and
  which dropout module it is, and the children of the backbone.

  Three things change between two calls of a module and are therefore state: the mode
  (\<^verbatim>\<open>model.train()\<close>, \<^verbatim>\<open>model.eval()\<close>), the random generator that the dropout modules draw
  from (a sequence of keep/drop decisions and the position reached in it), and the running
  statistics of every normalisation layer, keyed by layer. The mode is one flag for the
  whole model, as \<^verbatim>\<open>train()\<close> and \<^verbatim>\<open>eval()\<close> set it.
\<close>

type_synonym kernel = "tensor \<Rightarrow> error + tensor"

record mstate =
  training_mode :: bool
  rng_bits :: "nat \<Rightarrow> bool"
  rng_pos :: nat
  running_stats :: "nat \<Rightarrow> real list"

type_synonym module = "tensor \<times> mstate \<Rightarrow> error + tensor \<times> mstate"

text \<open>A module whose output depends on its weights and input only: \<^verbatim>\<open>Conv3d\<close>, the pools, \<^verbatim>\<open>Linear\<close>.\<close>

definition kernel_m :: "kernel \<Rightarrow> module" where
  "kernel_m k = (\<lambda>(x, s). case k x of Inl e \<Rightarrow> Inl e | Inr y \<Rightarrow> Inr (y, s))"

text \<open>\<^verbatim>\<open>nn.ReLU\<close>: negative elements become zero.\<close>

definition relu :: "tensor \<Rightarrow> tensor" where
  "relu x = x\<lparr>tdata := map (\<lambda>v. max 0 v) (tdata x)\<rparr>"

definition relu_m :: module where
  "relu_m = (\<lambda>(x, s). Inr (relu x, s))"

text \<open>
  \<^verbatim>\<open>nn.BatchNorm3d\<close>. In training mode the output is computed from the statistics of the
  batch (\<open>bn_batch\<close>) and the running statistics of the layer are updated (\<open>bn_update\<close>); in
  inference mode the output is computed from the running statistics (\<open>bn_running\<close>) and
  nothing is written.
\<close>

record batch_norm =
  bn_key :: nat
  bn_batch :: kernel
  bn_running :: "real list \<Rightarrow> kernel"
  bn_update :: "real list \<Rightarrow> tensor \<Rightarrow> real list"

definition batch_norm_m :: "batch_norm \<Rightarrow> module" where
  "batch_norm_m bn = (\<lambda>(x, s).
     if training_mode s then
       (case bn_batch bn x of
          Inl e \<Rightarrow> Inl e
        | Inr y \<Rightarrow>
            Inr (y, s\<lparr>running_stats := (running_stats s)
                        (bn_key bn := bn_update bn (running_stats s (bn_key bn)) x)\<rparr>))
     else
       (case bn_running bn (running_stats s (bn_key bn)) x of
          Inl e \<Rightarrow> Inl e
        | Inr y \<Rightarrow> Inr (y, s)))"

text \<open>
  Dropout, as PyTorch implements both modules: the input is returned as it is when
  \<open>p = 0\<close>, in inference mode, or when the input has no element; it is zeroed when
  \<open>p = 1\<close>; otherwise a noise tensor of keep/drop decisions is drawn, and every element is
  either zeroed or divided by \<open>1 - p\<close>. \<^verbatim>\<open>nn.Dropout\<close> draws one decision per element.
  \<^verbatim>\<open>nn.Dropout3d\<close> draws one decision per pair of indices of the first two axes (sample and
  channel), shared by all the elements behind them, and needs these two axes.
\<close>

definition draws :: "mstate \<Rightarrow> nat \<Rightarrow> bool list" where
  "draws s n = map (rng_bits s) [rng_pos s..<rng_pos s + n]"

definition scale_kept :: "real \<Rightarrow> bool \<Rightarrow> real \<Rightarrow> real" where
  "scale_kept p keep v = (if keep then v / (1 - p) else 0)"

fun dropout_m :: "dropout_module \<Rightarrow> module" where
  "dropout_m (Dropout p) (x, s) =
     (if p = 0 \<or> \<not> training_mode s \<or> tdata x = [] then Inr (x, s)
      else if p = 1 then Inr (x\<lparr>tdata := map (\<lambda>v. 0) (tdata x)\<rparr>, s)
      else
        (let n = length (tdata x);
             keep = draws s n
         in Inr (x\<lparr>tdata := map (\<lambda>i. scale_kept p (keep ! i) (tdata x ! i)) [0..<n]\<rparr>,
                 s\<lparr>rng_pos := rng_pos s + n\<rparr>)))"
| "dropout_m (Dropout3d p) (x, s) =
     (if p = 0 \<or> \<not> training_mode s \<or> tdata x = [] then Inr (x, s)
      else if p = 1 then Inr (x\<lparr>tdata := map (\<lambda>v. 0) (tdata x)\<rparr>, s)
      else
        (case tshape x of
           b # c # spatial \<Rightarrow>
             (let n = b * c;
                  vol = prod_list spatial;
                  keep = draws s n
              in Inr (x\<lparr>tdata := map (\<lambda>i. scale_kept p (keep ! (i div vol)) (tdata x ! i))
                                     [0..<length (tdata x)]\<rparr>,
                      s\<lparr>rng_pos := rng_pos s + n\<rparr>))
         | _ \<Rightarrow> Inl RuntimeError))"

text \<open>The modules a block owns, each with its weights: the value-level \<^verbatim>\<open>BasicBlock\<close>.\<close>

record basic_block_m =
  bbm_conv1 :: kernel
  bbm_bn1 :: batch_norm
  bbm_conv2 :: kernel
  bbm_bn2 :: batch_norm
  bbm_downsample :: "(kernel \<times> batch_norm) option"
  bbm_dropout :: dropout_module

text \<open>The value-level \<^verbatim>\<open>Bottleneck\<close>.\<close>

record bottleneck_m =
  btm_conv1 :: kernel
  btm_bn1 :: batch_norm
  btm_conv2 :: kernel
  btm_bn2 :: batch_norm
  btm_conv3 :: kernel
  btm_bn3 :: batch_norm
  btm_downsample :: "(kernel \<times> batch_norm) option"
  btm_dropout :: dropout_module

datatype block_m = BasicM basic_block_m | BottleM bottleneck_m

text \<open>
  \<^verbatim>\<open>residual = x\<close>, replaced by \<^verbatim>\<open>self.downsample(x)\<close> when there is a downsample, which is
  an \<^verbatim>\<open>nn.Sequential\<close> of a convolution and a normalisation.
\<close>

fun downsample_m :: "(kernel \<times> batch_norm) option \<Rightarrow> module" where
  "downsample_m None (x, s) = Inr (x, s)"
| "downsample_m (Some (c, n)) (x, s) = seq_e [kernel_m c, batch_norm_m n] (x, s)"

text \<open>
  \<^verbatim>\<open>BasicBlock.forward\<close>. \<open>iadd\<close> is the kernel of \<^verbatim>\<open>out += residual\<close>. The in-place
  operations (\<^verbatim>\<open>ReLU(inplace=True)\<close>, \<^verbatim>\<open>+=\<close>) write to tensors that the convolutions and
  normalisations have just created, never to the input \<^verbatim>\<open>x\<close> of the block, so the
  residual read after them is the input.
\<close>

definition BasicBlock_forward ::
  "(tensor \<Rightarrow> tensor \<Rightarrow> error + tensor) \<Rightarrow> basic_block_m \<Rightarrow> module" where
  "BasicBlock_forward iadd b = (\<lambda>(x, s).
     case seq_e [kernel_m (bbm_conv1 b), batch_norm_m (bbm_bn1 b), relu_m,
                 dropout_m (bbm_dropout b),
                 kernel_m (bbm_conv2 b), batch_norm_m (bbm_bn2 b)] (x, s) of
       Inl e \<Rightarrow> Inl e
     | Inr (out, s1) \<Rightarrow>
         (case downsample_m (bbm_downsample b) (x, s1) of
            Inl e \<Rightarrow> Inl e
          | Inr (residual, s2) \<Rightarrow>
              (case iadd out residual of
                 Inl e \<Rightarrow> Inl e
               | Inr out' \<Rightarrow> relu_m (out', s2))))"

text \<open>\<^verbatim>\<open>Bottleneck.forward\<close>: the same dropout module is called after both activations.\<close>

definition Bottleneck_forward ::
  "(tensor \<Rightarrow> tensor \<Rightarrow> error + tensor) \<Rightarrow> bottleneck_m \<Rightarrow> module" where
  "Bottleneck_forward iadd b = (\<lambda>(x, s).
     case seq_e [kernel_m (btm_conv1 b), batch_norm_m (btm_bn1 b), relu_m,
                 dropout_m (btm_dropout b),
                 kernel_m (btm_conv2 b), batch_norm_m (btm_bn2 b), relu_m,
                 dropout_m (btm_dropout b),
                 kernel_m (btm_conv3 b), batch_norm_m (btm_bn3 b)] (x, s) of
       Inl e \<Rightarrow> Inl e
     | Inr (out, s1) \<Rightarrow>
         (case downsample_m (btm_downsample b) (x, s1) of
            Inl e \<Rightarrow> Inl e
          | Inr (residual, s2) \<Rightarrow>
              (case iadd out residual of
                 Inl e \<Rightarrow> Inl e
               | Inr out' \<Rightarrow> relu_m (out', s2))))"

fun block_forward :: "(tensor \<Rightarrow> tensor \<Rightarrow> error + tensor) \<Rightarrow> block_m \<Rightarrow> module" where
  "block_forward iadd (BasicM b) = BasicBlock_forward iadd b"
| "block_forward iadd (BottleM b) = Bottleneck_forward iadd b"

text \<open>A stage: the \<^verbatim>\<open>nn.Sequential\<close> of its blocks.\<close>

definition layer_m :: "(tensor \<Rightarrow> tensor \<Rightarrow> error + tensor) \<Rightarrow> block_m list \<Rightarrow> module" where
  "layer_m iadd blocks = seq_e (map (block_forward iadd) blocks)"

text \<open>\<^verbatim>\<open>torch.flatten(x, 1)\<close>: the same elements, all axes after the first merged.\<close>

definition flatten_m :: module where
  "flatten_m = (\<lambda>(x, s).
     case flatten_shape (tshape x) of
       Inl e \<Rightarrow> Inl e
     | Inr sh \<Rightarrow> Inr (x\<lparr>tshape := sh\<rparr>, s))"

text \<open>The modules \<^verbatim>\<open>ResNet.__init__\<close> registers, with their weights.\<close>

record resnet_m =
  rm_conv1 :: kernel
  rm_bn1 :: batch_norm
  rm_maxpool :: kernel
  rm_layer1 :: "block_m list"
  rm_layer2 :: "block_m list"
  rm_layer3 :: "block_m list"
  rm_layer4 :: "block_m list"
  rm_avgpool :: kernel
  rm_fc :: kernel

text \<open>
  \<^verbatim>\<open>self.resnet.children()\<close>: the direct submodules in the order \<^verbatim>\<open>__init__\<close> assigns them:
  \<^verbatim>\<open>conv1, bn1, relu, maxpool, layer1, layer2, layer3, layer4, avgpool, fc\<close>.
\<close>

definition children :: "(tensor \<Rightarrow> tensor \<Rightarrow> error + tensor) \<Rightarrow> resnet_m \<Rightarrow> module list" where
  "children iadd r =
     [kernel_m (rm_conv1 r), batch_norm_m (rm_bn1 r), relu_m, kernel_m (rm_maxpool r),
      layer_m iadd (rm_layer1 r), layer_m iadd (rm_layer2 r),
      layer_m iadd (rm_layer3 r), layer_m iadd (rm_layer4 r),
      kernel_m (rm_avgpool r), kernel_m (rm_fc r)]"

text \<open>\<^verbatim>\<open>ResNet.forward\<close>.\<close>

definition ResNet_forward :: "(tensor \<Rightarrow> tensor \<Rightarrow> error + tensor) \<Rightarrow> resnet_m \<Rightarrow> module" where
  "ResNet_forward iadd r =
     seq_e [kernel_m (rm_conv1 r), batch_norm_m (rm_bn1 r), relu_m, kernel_m (rm_maxpool r),
            layer_m iadd (rm_layer1 r), layer_m iadd (rm_layer2 r),
            layer_m iadd (rm_layer3 r), layer_m iadd (rm_layer4 r),
            kernel_m (rm_avgpool r), flatten_m, kernel_m (rm_fc r)]"

text \<open>What \<^verbatim>\<open>ResNet.forward\<close> does after \<^verbatim>\<open>layer4\<close>: pool, flatten, linear head.\<close>

definition head :: "resnet_m \<Rightarrow> module" where
  "head r = seq_e [kernel_m (rm_avgpool r), flatten_m, kernel_m (rm_fc r)]"

text \<open>
  \<^verbatim>\<open>nn.Sequential(*list(self.resnet.children())[:-2])\<close>: the slice \<^verbatim>\<open>[:-2]\<close> of a list drops
  its last two elements.
\<close>

definition feature_extractor :: "(tensor \<Rightarrow> tensor \<Rightarrow> error + tensor) \<Rightarrow> resnet_m \<Rightarrow> module" where
  "feature_extractor iadd r =
     (let cs = children iadd r in seq_e (take (length cs - 2) cs))"

text \<open>
  \<^verbatim>\<open>ModelComb\<close>: \<^verbatim>\<open>__init__(self, resnet, n_classes=400, n_input_channels=1)\<close> stores
  \<^verbatim>\<open>resnet\<close> and nothing else.
\<close>

record model_comb =
  mc_resnet :: resnet_m

definition ModelComb_init :: "resnet_m \<Rightarrow> nat option \<Rightarrow> nat option \<Rightarrow> model_comb" where
  "ModelComb_init resnet n_classes_kw n_input_channels_kw = \<lparr>mc_resnet = resnet\<rparr>"

text \<open>\<^verbatim>\<open>ModelComb.forward(x1, x2)\<close>: four passes, one after the other, through the one backbone.\<close>

definition ModelComb_forward ::
  "(tensor \<Rightarrow> tensor \<Rightarrow> error + tensor) \<Rightarrow> model_comb \<Rightarrow> tensor \<Rightarrow> tensor \<Rightarrow> mstate
     \<Rightarrow> error + (tensor \<times> tensor \<times> tensor \<times> tensor) \<times> mstate" where
  "ModelComb_forward iadd m x1 x2 s =
     (case ResNet_forward iadd (mc_resnet m) (x1, s) of
        Inl e \<Rightarrow> Inl e
      | Inr (reg0, s1) \<Rightarrow>
     (case ResNet_forward iadd (mc_resnet m) (x2, s1) of
        Inl e \<Rightarrow> Inl e
      | Inr (reg1, s2) \<Rightarrow>
     (case feature_extractor iadd (mc_resnet m) (x1, s2) of
        Inl e \<Rightarrow> Inl e
      | Inr (features_x1, s3) \<Rightarrow>
     (case feature_extractor iadd (mc_resnet m) (x2, s3) of
        Inl e \<Rightarrow> Inl e
      | Inr (features_x2, s4) \<Rightarrow>
          Inr ((features_x1, features_x2, reg0, reg1), s4)))))"

text \<open>
  The loss lines of the training cell, on the four outputs of the model and the targets:
  \<^verbatim>\<open>contr_loss = contrastive_loss(features_x1, features_x2)\<close> with the default margin 1.0,
  \<^verbatim>\<open>mse_loss = mse_loss_fn(reg0, y1)\<close>, \<^verbatim>\<open>total_loss = contr_loss + mse_loss\<close>, in this order.
  \<open>contrastive_loss\<close> above is modelled on two feature maps of one shape with at least one
  axis; in general the subtraction inside \<^verbatim>\<open>F.pairwise_distance\<close> first broadcasts the two
  feature maps against each other and raises when they do not broadcast, which is made
  explicit here.
\<close>

definition losses ::
  "tensor \<times> tensor \<times> tensor \<times> tensor \<Rightarrow> tensor \<Rightarrow> tensor \<Rightarrow> error + real option" where
  "losses outputs y1 y2 =
     (case outputs of (features_x1, features_x2, reg0, reg1) \<Rightarrow>
        (case broadcast_tensors features_x1 features_x2 of
           Inl e \<Rightarrow> Inl e
         | Inr (expanded_x1, expanded_x2) \<Rightarrow>
             (let contr_loss = contrastive_loss expanded_x1 expanded_x2 1
              in case mse_loss_fn reg0 y1 of
                   Inl e \<Rightarrow> Inl e
                 | Inr mse_loss \<Rightarrow> Inr (add_scalar contr_loss mse_loss))))"

text \<open>
  The training cell up to \<^verbatim>\<open>total_loss\<close>: \<^verbatim>\<open>model.train()\<close>, the forward pass on
  \<^verbatim>\<open>(x1, x2)\<close>, the losses.
\<close>

definition total_loss ::
  "(tensor \<Rightarrow> tensor \<Rightarrow> error + tensor) \<Rightarrow> model_comb \<Rightarrow> tensor \<Rightarrow> tensor \<Rightarrow> tensor \<Rightarrow> tensor
     \<Rightarrow> mstate \<Rightarrow> error + real option" where
  "total_loss iadd model x1 x2 y1 y2 s =
     (case ModelComb_forward iadd model x1 x2 (s\<lparr>training_mode := True\<rparr>) of
        Inl e \<Rightarrow> Inl e
      | Inr (outputs, s') \<Rightarrow> losses outputs y1 y2)"

section \<open>Example inputs\<close>

text \<open>Small concrete tensors, modules and states on which the theorems below are instantiated.\<close>

text \<open>Two feature maps of shape \<open>(1, 2, 1, 1, 1)\<close>: one sample, two channels, one voxel each.\<close>

definition pair_x1 :: tensor where
  "pair_x1 = \<lparr>tshape = [1, 2, 1, 1, 1], tdata = [3, 4]\<rparr>"
definition pair_x2 :: tensor where
  "pair_x2 = \<lparr>tshape = [1, 2, 1, 1, 1], tdata = [0, 0]\<rparr>"

text \<open>Feature maps of shape \<open>(1, 1)\<close>, and a pair of feature maps with no sample.\<close>

definition feat_zero :: tensor where
  "feat_zero = \<lparr>tshape = [1, 1], tdata = [0]\<rparr>"
definition feat_eps :: tensor where
  "feat_eps = \<lparr>tshape = [1, 1], tdata = [eps]\<rparr>"
definition feat_three :: tensor where
  "feat_three = \<lparr>tshape = [1, 1], tdata = [3]\<rparr>"

definition empty_features :: tensor where
  "empty_features = \<lparr>tshape = [0, 1], tdata = []\<rparr>"

text \<open>Predictions and targets of shape \<open>(2, 1)\<close>.\<close>

definition example_reg0 :: tensor where
  "example_reg0 = \<lparr>tshape = [2, 1], tdata = [1, 2]\<rparr>"

definition example_y1 :: tensor where
  "example_y1 = \<lparr>tshape = [2, 1], tdata = [0, 0]\<rparr>"

text \<open>Targets whose shape differs from the shape \<open>(2, 1)\<close> of the predictions.\<close>

definition example_target_row :: tensor where
  "example_target_row = \<lparr>tshape = [2], tdata = [0, 1]\<rparr>"

definition example_target_three :: tensor where
  "example_target_three = \<lparr>tshape = [3, 1], tdata = [0, 0, 0]\<rparr>"

text \<open>
  A backbone whose kernels return their input, with one bottleneck block of dropout rate
  1/2 in the first stage and no block in the others; an in-place addition for equal
  shapes; a state whose generator keeps the first element it decides on and drops all
  later ones.
\<close>

definition example_kernel :: kernel where
  "example_kernel x = Inr x"

definition example_bn :: "nat \<Rightarrow> batch_norm" where
  "example_bn k = \<lparr>bn_key = k, bn_batch = (\<lambda>x. Inr x), bn_running = (\<lambda>st x. Inr x),
                   bn_update = (\<lambda>st x. st)\<rparr>"

definition example_iadd :: "tensor \<Rightarrow> tensor \<Rightarrow> error + tensor" where
  "example_iadd out residual =
     (if tshape out = tshape residual
      then Inr (out\<lparr>tdata := map2 (+) (tdata out) (tdata residual)\<rparr>)
      else Inl RuntimeError)"

definition example_block :: block_m where
  "example_block = BottleM \<lparr>btm_conv1 = example_kernel, btm_bn1 = example_bn 1,
     btm_conv2 = example_kernel, btm_bn2 = example_bn 2,
     btm_conv3 = example_kernel, btm_bn3 = example_bn 3,
     btm_downsample = None, btm_dropout = Dropout3d (1 / 2)\<rparr>"

definition example_resnet :: resnet_m where
  "example_resnet = \<lparr>rm_conv1 = example_kernel, rm_bn1 = example_bn 0, rm_maxpool = example_kernel,
     rm_layer1 = [example_block], rm_layer2 = [], rm_layer3 = [], rm_layer4 = [],
     rm_avgpool = example_kernel, rm_fc = example_kernel\<rparr>"

definition example_input :: tensor where
  "example_input = \<lparr>tshape = [1, 1, 1, 1, 2], tdata = [1, - 1]\<rparr>"

definition example_state :: "bool \<Rightarrow> mstate" where
  "example_state tr = \<lparr>training_mode = tr, rng_bits = (\<lambda>i. i = 0), rng_pos = 0,
                        running_stats = (\<lambda>k. [])\<rparr>"

definition two_voxels :: tensor where
  "two_voxels = \<lparr>tshape = [1, 1, 1, 1, 2], tdata = [1, 1]\<rparr>"

section \<open>Properties of the construction\<close>

lemma block_init_facts:
  "block_in_planes (block_init bt i pl s ds p) = i"
  "block_stride (block_init bt i pl s ds p) = s"
  "block_downsample (block_init bt i pl s ds p) = ds"
  by (cases bt; simp add: conv3x3x3_def conv1x1x1_def)+


text \<open>
  Claim C6. In \<^verbatim>\<open>_make_layer\<close> the first block of a stage gets a projection shortcut (a
  1x1x1 convolution from the running input channel count to \<open>planes * expansion\<close> with
  the stage stride, followed by a normalisation) exactly when the stride is not 1 or
  the running input channel count is not \<open>planes * expansion\<close>. The \<open>blocks - 1\<close> blocks that
  follow have stride 1, no shortcut module (identity) and \<open>planes * expansion\<close> input
  channels: each is the block class called with these arguments. \<open>planes * expansion\<close> is
  also the running input channel count the routine leaves behind.
\<close>

theorem make_layer_shortcuts:
  assumes "make_layer inplanes bt planes blocks stride p = (bs, ip')"
  shows "bs \<noteq> [] \<and>
    (block_downsample (hd bs) \<noteq> None \<longleftrightarrow> (stride \<noteq> 1 \<or> inplanes \<noteq> planes * expansion bt)) \<and>
    (block_downsample (hd bs) \<noteq> None \<longrightarrow>
       block_downsample (hd bs) = Some (conv1x1x1 inplanes (planes * expansion bt) stride, planes * expansion bt)) \<and>
    block_in_planes (hd bs) = inplanes \<and> block_stride (hd bs) = stride \<and>
    length (tl bs) = blocks - 1 \<and>
    (\<forall>b \<in> set (tl bs). block_stride b = 1 \<and> block_downsample b = None \<and>
        block_in_planes b = planes * expansion bt \<and>
        b = block_init bt (planes * expansion bt) planes 1 None p) \<and>
    ip' = planes * expansion bt"
  using assms by (auto simp: make_layer_def Let_def block_init_facts split: if_splits)

text \<open>The first stage of the 101-layer network: a projection at stride 1, from 64 to 256 channels.\<close>

theorem make_layer_shortcuts_witness:
  "block_downsample (hd (fst (make_layer 64 Bottleneck 64 3 1 0))) \<noteq> None \<and>
   length (tl (fst (make_layer 64 Bottleneck 64 3 1 0))) = 2 \<and>
   list_all (\<lambda>b. block_stride b = 1 \<and> block_downsample b = None \<and> block_in_planes b = 256)
     (tl (fst (make_layer 64 Bottleneck 64 3 1 0)))"
  using make_layer_shortcuts [of 64 Bottleneck 64 3 1 0 "fst (make_layer 64 Bottleneck 64 3 1 0)" "snd (make_layer 64 Bottleneck 64 3 1 0)"]
  by (simp add: list_all_iff)

text \<open>
  Claim C10. Called without keyword arguments, \<^verbatim>\<open>resnet101\<close> builds a backbone with
  \<open>num_classes = 1000\<close> and \<open>in_channels = 3\<close>. The notebook's construction site passes
  \<^verbatim>\<open>num_classes=1, in_channels=1\<close> and gets 1 and 1, and no other choice of keyword
  arguments gives that configuration.
\<close>

theorem resnet101_defaults:
 "(\<exists>r. resnet101 None None None = Inr r \<and> num_classes_of r = 1000 \<and> in_channels_of r = 3) \<and>
  (\<exists>r. model_resnet = Inr r \<and> num_classes_of r = 1 \<and> in_channels_of r = 1) \<and>
  (\<forall>nc p ic r. resnet101 nc p ic = Inr r \<longrightarrow>
      (num_classes_of r = 1 \<and> in_channels_of r = 1) = (nc = Some 1 \<and> ic = Some 1))"
  by (auto simp: resnet101_def model_resnet_def ResNet_init_def Let_def num_classes_of_def in_channels_of_def
      split: prod.splits option.splits if_splits)

text \<open>The construction site of the notebook, as an instance of the last conjunct.\<close>

theorem resnet101_defaults_witness:
  "\<exists>r. resnet101 (Some 1) None (Some 1) = Inr r \<and> num_classes_of r = 1 \<and> in_channels_of r = 1"
proof -
  from resnet101_defaults obtain r where r: "model_resnet = Inr r"
    and "num_classes_of r = 1 \<and> in_channels_of r = 1" by blast
  moreover have "resnet101 (Some 1) None (Some 1) = Inr r" using r by (simp add: model_resnet_def)
  ultimately show ?thesis by blast
qed

section \<open>Shape safety of the forward pass\<close>

lemma prod4_ne_1: "0 < d \<Longrightarrow> 0 < h \<Longrightarrow> 0 < w \<Longrightarrow> (b::nat) * (2 * d) * (2 * h) * (2 * w) \<noteq> 1"
proof
  assume "0 < d" "0 < h" "0 < w" and eq: "b * (2 * d) * (2 * h) * (2 * w) = 1"
  have "b * (2 * d) * (2 * h) * (2 * w) = 2 * (b * d * (2 * h) * (2 * w))" by simp
  with eq have "2 * (b * d * (2 * h) * (2 * w)) = 1" by simp
  then show False by presburger
qed

lemma bn_ok:
  "\<not> single_value_per_channel tr b d h w \<Longrightarrow> batch_norm3d_shape tr n [b, n, d, h, w] = Inr [b, n, d, h, w]"
  by simp

lemma single_value_double: "0 < d \<Longrightarrow> 0 < h \<Longrightarrow> 0 < w \<Longrightarrow> \<not> single_value_per_channel tr b (2 * d) (2 * h) (2 * w)"
  unfolding single_value_per_channel_def using prod4_ne_1[of d h w b] by blast

lemma conv_ok:
  assumes "0 < st" "k \<le> d + 2 * p" "k \<le> h + 2 * p" "k \<le> w + 2 * p"
  shows "conv3d_shape \<lparr>in_channels = ch, out_channels = oc, kernel_size = k, conv_stride = st, padding = p\<rparr>
           [b, ch, d, h, w] = Inr [b, oc, out_size d k st p, out_size h k st p, out_size w k st p]"
  using assms by (simp add: conv_spatial_ok_def conv_out_def)

lemma iadd_same: "iadd_shape sh sh = Inr sh"
  by (simp add: iadd_shape_def broadcastable_to_def list_all2_same)

lemma out_size_k3_s1: "0 < n \<Longrightarrow> out_size n 3 (Suc 0) (Suc 0) = n"
  by (simp add: out_size_def)
lemma out_size_k3_s2: "0 < n \<Longrightarrow> out_size (2 * n) 3 2 (Suc 0) = n"
  by (simp add: out_size_def)
lemma out_size_k1_s1: "0 < n \<Longrightarrow> out_size n (Suc 0) (Suc 0) 0 = n"
  by (simp add: out_size_def)
lemma out_size_k1_s2: "0 < n \<Longrightarrow> out_size (2 * n) (Suc 0) 2 0 = n"
  by (simp add: out_size_def)

lemmas shape_simps = conv_ok bn_ok iadd_same out_size_k3_s1 out_size_k3_s2 out_size_k1_s1 out_size_k1_s2
  relu_shape_def dropout_shape_def conv3x3x3_def conv1x1x1_def

lemma block_identity_shape:
  assumes pos: "0 < d" "0 < h" "0 < w" and tr: "\<not> single_value_per_channel tr b d h w"
  shows "block_forward_shape tr (block_init bt (planes * expansion bt) planes 1 None p)
           [b, planes * expansion bt, d, h, w] = Inr [b, planes * expansion bt, d, h, w]"
  using pos tr
  by (cases bt)
     (simp_all add: BasicBlock_forward_shape_def Bottleneck_forward_shape_def shape_simps
        del: batch_norm3d_shape.simps conv3d_shape.simps)

lemma block_project1_shape:
  assumes pos: "0 < d" "0 < h" "0 < w" and tr: "\<not> single_value_per_channel tr b d h w"
  shows "block_forward_shape tr
           (block_init bt inp planes 1 (Some (conv1x1x1 inp (planes * expansion bt) 1, planes * expansion bt)) p)
           [b, inp, d, h, w] = Inr [b, planes * expansion bt, d, h, w]"
  using pos tr
  by (cases bt)
     (simp_all add: BasicBlock_forward_shape_def Bottleneck_forward_shape_def shape_simps
        del: batch_norm3d_shape.simps conv3d_shape.simps)

lemma block_project2_shape:
  assumes pos: "0 < d" "0 < h" "0 < w" and tr: "\<not> single_value_per_channel tr b d h w"
  shows "block_forward_shape tr
           (block_init bt inp planes 2 (Some (conv1x1x1 inp (planes * expansion bt) 2, planes * expansion bt)) p)
           [b, inp, 2 * d, 2 * h, 2 * w] = Inr [b, planes * expansion bt, d, h, w]"
  using pos tr
  by (cases bt)
     (simp_all add: BasicBlock_forward_shape_def Bottleneck_forward_shape_def shape_simps single_value_double
        del: batch_norm3d_shape.simps conv3d_shape.simps)


lemma first_block_shape:
  assumes pos: "0 < d" "0 < h" "0 < w" and tr: "\<not> single_value_per_channel tr b d h w" and s: "s = 1 \<or> s = 2"
  shows "block_forward_shape tr
           (block_init bt inp planes s
              (if s \<noteq> 1 \<or> inp \<noteq> planes * expansion bt
               then Some (conv1x1x1 inp (planes * expansion bt) s, planes * expansion bt)
               else None) p)
           [b, inp, s * d, s * h, s * w] = Inr [b, planes * expansion bt, d, h, w]"
proof -
  consider (two) "s = 2" | (proj) "s = 1" "inp \<noteq> planes * expansion bt"
    | (ident) "s = 1" "inp = planes * expansion bt"
    using s by blast
  then show ?thesis
  proof cases
    case two
    then show ?thesis using block_project2_shape[where bt=bt and inp=inp and planes=planes and p=p, OF pos tr] by simp
  next
    case proj
    then show ?thesis using block_project1_shape[where bt=bt and inp=inp and planes=planes and p=p, OF pos tr] by simp
  next
    case ident
    then show ?thesis using block_identity_shape[where bt=bt and planes=planes and p=p, OF pos tr] by simp
  qed
qed

lemma seq_e_replicate_id: "f x = Inr x \<Longrightarrow> seq_e (replicate n f) x = Inr x"
  by (induction n) simp_all

lemma layer_shape:
  assumes pos: "0 < d" "0 < h" "0 < w" and tr: "\<not> single_value_per_channel tr b d h w" and s: "s = 1 \<or> s = 2"
  shows "layer_forward_shape tr (fst (make_layer inp bt planes blocks s p)) [b, inp, s * d, s * h, s * w]
         = Inr [b, planes * expansion bt, d, h, w]"
  using first_block_shape[where bt=bt and inp=inp and planes=planes and p=p, OF pos tr s]
        seq_e_replicate_id[where n="blocks - 1"
          and f="block_forward_shape tr (block_init bt (planes * expansion bt) planes 1 None p)"
          and x="[b, planes * expansion bt, d, h, w]"]
        block_identity_shape[where bt=bt and planes=planes and p=p, OF pos tr]
  by (simp add: layer_forward_shape_def make_layer_def Let_def)

lemma make_layer_snd: "snd (make_layer inp bt planes blocks s p) = planes * expansion bt"
  by (simp add: make_layer_def Let_def)

lemma stem_shape:
  assumes pos: "0 < d" "0 < h" "0 < w"
  shows "seq_e [conv3d_shape \<lparr>in_channels = ch, out_channels = 64, kernel_size = 7,
                             conv_stride = 2, padding = 3\<rparr>,
                batch_norm3d_shape tr 64, relu_shape, max_pool3d_shape (3, 2, 1)]
           [b, ch, 4 * d, 4 * h, 4 * w] = Inr [b, 64, d, h, w]"
proof -
  have o: "\<And>n. 0 < n \<Longrightarrow> out_size (4 * n) 7 2 3 = 2 * n" "\<And>n. 0 < n \<Longrightarrow> out_size (2 * n) 3 2 (Suc 0) = n"
    by (simp_all add: out_size_def)
  show ?thesis using pos
    by (simp add: shape_simps o single_value_double del: batch_norm3d_shape.simps conv3d_shape.simps)
qed

lemma seq_e_append: "seq_e (fs @ gs) x = (case seq_e fs x of Inl e \<Rightarrow> Inl e | Inr y \<Rightarrow> seq_e gs y)"
  by (induction fs arbitrary: x) (auto split: sum.splits)

lemma ResNet_shape_core:
  assumes init: "ResNet_init bt layers nc dr (Some 1) = Inr r"
    and pos: "0 < d" "0 < h" "0 < w"
    and tr: "tr \<longrightarrow> b * d * h * w \<noteq> 1"
  shows "ResNet_forward_shape (r\<lparr>r_training := tr\<rparr>) [b, 1, 32 * d, 32 * h, 32 * w]
         = Inr [b, num_classes_of r]"
proof -
  have nf: "\<not> single_value_per_channel tr b d h w" using tr by (simp add: single_value_per_channel_def)
  have pos2: "0 < 2 * d" "0 < 2 * h" "0 < 2 * w" using pos by simp_all
  have pos4: "0 < 4 * d" "0 < 4 * h" "0 < 4 * w" using pos by simp_all
  have pos8: "0 < 8 * d" "0 < 8 * h" "0 < 8 * w" using pos by simp_all
  have nf2: "\<not> single_value_per_channel tr b (2 * d) (2 * h) (2 * w)" using single_value_double[OF pos] .
  have nf4: "\<not> single_value_per_channel tr b (4 * d) (4 * h) (4 * w)" using single_value_double[OF pos2] by simp
  have nf8: "\<not> single_value_per_channel tr b (8 * d) (8 * h) (8 * w)" using single_value_double[OF pos4] by simp
  define ip1 where "ip1 = 64 * expansion bt"
  define ip2 where "ip2 = 128 * expansion bt"
  define ip3 where "ip3 = 256 * expansion bt"
  define l1 where "l1 = fst (make_layer 64 bt 64 (layers ! 0) 1 (case dr of None \<Rightarrow> 0 | Some p \<Rightarrow> p))"
  define l2 where "l2 = fst (make_layer ip1 bt 128 (layers ! 1) 2 (case dr of None \<Rightarrow> 0 | Some p \<Rightarrow> p))"
  define l3 where "l3 = fst (make_layer ip2 bt 256 (layers ! 2) 2 (case dr of None \<Rightarrow> 0 | Some p \<Rightarrow> p))"
  define l4 where "l4 = fst (make_layer ip3 bt 512 (layers ! 3) 2 (case dr of None \<Rightarrow> 0 | Some p \<Rightarrow> p))"
  have r: "r = \<lparr>r_inplanes = 512 * expansion bt,
             r_conv1 = \<lparr>in_channels = 1, out_channels = 64, kernel_size = 7, conv_stride = 2, padding = 3\<rparr>,
             r_bn1 = 64, r_maxpool = (3, 2, 1),
             r_layer1 = l1, r_layer2 = l2, r_layer3 = l3, r_layer4 = l4,
             r_fc = (512 * expansion bt, case nc of None \<Rightarrow> 1000 | Some n \<Rightarrow> n),
             r_training = True\<rparr>"
    using init
    by (simp add: ResNet_init_def Let_def split_beta make_layer_snd l1_def l2_def l3_def l4_def
        ip1_def ip2_def ip3_def split: if_splits)
  have stem: "seq_e [conv3d_shape (r_conv1 r), batch_norm3d_shape tr (r_bn1 r), relu_shape,
                     max_pool3d_shape (r_maxpool r)] [b, 1, 32 * d, 32 * h, 32 * w]
              = Inr [b, 64, 8 * d, 8 * h, 8 * w]"
    using stem_shape[where ch=1 and tr=tr and b=b, OF pos8] by (simp add: r)
  have s1: "layer_forward_shape tr l1 [b, 64, 8 * d, 8 * h, 8 * w] = Inr [b, ip1, 8 * d, 8 * h, 8 * w]"
    using layer_shape[where s=1 and inp=64 and bt=bt and planes=64, OF pos8 nf8] by (simp add: l1_def ip1_def)
  have s2: "layer_forward_shape tr l2 [b, ip1, 8 * d, 8 * h, 8 * w] = Inr [b, ip2, 4 * d, 4 * h, 4 * w]"
    using layer_shape[where s=2 and inp=ip1 and bt=bt and planes=128, OF pos4 nf4] by (simp add: l2_def ip2_def)
  have s3: "layer_forward_shape tr l3 [b, ip2, 4 * d, 4 * h, 4 * w] = Inr [b, ip3, 2 * d, 2 * h, 2 * w]"
    using layer_shape[where s=2 and inp=ip2 and bt=bt and planes=256, OF pos2 nf2] by (simp add: l3_def ip3_def)
  have s4: "layer_forward_shape tr l4 [b, ip3, 2 * d, 2 * h, 2 * w] = Inr [b, 512 * expansion bt, d, h, w]"
    using layer_shape[where s=2 and inp=ip3 and bt=bt and planes=512, OF pos nf] by (simp add: l4_def)
  have head: "seq_e [adaptive_avg_pool3d_shape, flatten_shape, linear_shape (r_fc r)]
                [b, 512 * expansion bt, d, h, w] = Inr [b, num_classes_of r]"
    using pos by (cases bt) (simp_all add: r num_classes_of_def)
  have split: "ResNet_forward_shape (r\<lparr>r_training := tr\<rparr>) x =
      seq_e ([conv3d_shape (r_conv1 r), batch_norm3d_shape tr (r_bn1 r), relu_shape,
              max_pool3d_shape (r_maxpool r)] @
             [layer_forward_shape tr l1] @ [layer_forward_shape tr l2] @
             [layer_forward_shape tr l3] @ [layer_forward_shape tr l4] @
             [adaptive_avg_pool3d_shape, flatten_shape, linear_shape (r_fc r)]) x" for x
    by (simp add: ResNet_forward_shape_def r)
  have layers: "seq_e ([layer_forward_shape tr l1] @ [layer_forward_shape tr l2] @
             [layer_forward_shape tr l3] @ [layer_forward_shape tr l4] @
             [adaptive_avg_pool3d_shape, flatten_shape, linear_shape (r_fc r)])
             [b, 64, 8 * d, 8 * h, 8 * w] = Inr [b, num_classes_of r]"
    unfolding seq_e_append[of "[_]"] using head by (simp only: seq_e.simps s1 s2 s3 s4 sum.case)
  show ?thesis
    unfolding split seq_e_append[of "[_, _, _, _]"] stem using layers by simp
qed

lemma ResNet_init_Inr:
  "4 \<le> length layers \<Longrightarrow> 0 \<le> (case dr of None \<Rightarrow> 0 | Some p \<Rightarrow> p) \<Longrightarrow>
   (case dr of None \<Rightarrow> 0 | Some p \<Rightarrow> p) \<le> 1 \<Longrightarrow> \<exists>r. ResNet_init bt layers nc dr ic = Inr r"
  by (auto simp: ResNet_init_def Let_def split_beta)


text \<open>
  Claim C5, as amended. Take a backbone built by \<^verbatim>\<open>ResNet.__init__\<close> with
  \<open>in_channels = 1\<close> (either block class, any stage depths, any number of classes, any
  valid dropout rate), in training or in inference mode, and an input of shape
  \<open>(batch, 1, D, H, W)\<close> with \<open>batch \<ge> 1\<close> and \<open>D\<close>, \<open>H\<close>, \<open>W\<close> at least 32 and divisible by
  32. If the mode is inference, or the mode is training and
  \<open>batch * (D/32) * (H/32) * (W/32)\<close> is not 1, the forward pass raises nothing and
  returns a tensor of shape \<open>(batch, num_classes)\<close>.
\<close>

theorem ResNet_forward_shape_ok:
  assumes init: "ResNet_init bt layers nc dr (Some 1) = Inr r"
    and D: "32 \<le> D" "32 dvd D" and H: "32 \<le> H" "32 dvd H" and W: "32 \<le> W" "32 dvd W"
    and b: "0 < b"
    and tr: "tr \<longrightarrow> b * (D div 32) * (H div 32) * (W div 32) \<noteq> 1"
  shows "ResNet_forward_shape (r\<lparr>r_training := tr\<rparr>) [b, 1, D, H, W] = Inr [b, num_classes_of r]"
proof -
  from D(2) obtain d where d: "D = 32 * d" by (auto simp: dvd_def)
  from H(2) obtain h where h: "H = 32 * h" by (auto simp: dvd_def)
  from W(2) obtain w where w: "W = 32 * w" by (auto simp: dvd_def)
  note dhw = d h w
  have pos: "0 < d" "0 < h" "0 < w" using D H W dhw by auto
  have "tr \<longrightarrow> b * d * h * w \<noteq> 1" using tr dhw by simp
  from ResNet_shape_core[OF init pos this] show ?thesis by (simp add: dhw)
qed


text \<open>
  The notebook's own run (batch 8, 64x64x64, training mode) and a single 32x32x32 volume
  in inference mode.
\<close>

theorem ResNet_forward_shape_ok_witness:
  "\<exists>r. model_resnet = Inr r \<and>
       ResNet_forward_shape (r\<lparr>r_training := True\<rparr>) [8, 1, 64, 64, 64] = Inr [8, 1] \<and>
       ResNet_forward_shape (r\<lparr>r_training := False\<rparr>) [1, 1, 32, 32, 32] = Inr [1, 1]"
proof -
  obtain r where r: "ResNet_init Bottleneck [3, 4, 23, 3] (Some 1) None (Some 1) = Inr r"
    using ResNet_init_Inr[where layers="[3, 4, 23, 3]" and dr=None and bt=Bottleneck
        and nc="Some 1" and ic="Some 1"] by auto
  have nc: "num_classes_of r = 1"
    using r by (auto simp: ResNet_init_def Let_def split_beta num_classes_of_def)
  have "ResNet_forward_shape (r\<lparr>r_training := True\<rparr>) [8, 1, 64, 64, 64] = Inr [8, num_classes_of r]"
    using ResNet_forward_shape_ok[OF r, of 64 64 64 8 True] by simp
  moreover have "ResNet_forward_shape (r\<lparr>r_training := False\<rparr>) [1, 1, 32, 32, 32] = Inr [1, num_classes_of r]"
    using ResNet_forward_shape_ok[OF r, of 32 32 32 1 False] by simp
  ultimately show ?thesis using r nc by (simp add: model_resnet_def resnet101_def)
qed


lemma layer4_fails:
  "layer_forward_shape True (fst (make_layer 1024 Bottleneck 512 n 2 p)) [1, 1024, 2, 2, 2] = Inl ValueError"
  by (simp add: layer_forward_shape_def make_layer_def Let_def Bottleneck_forward_shape_def
      conv1x1x1_def conv3x3x3_def conv_out_def out_size_def conv_spatial_ok_def relu_shape_def
      dropout_shape_def single_value_per_channel_def)


text \<open>
  The claim without the condition on the mode fails: a freshly built backbone is in
  training mode, and on one 32x32x32 volume the second normalisation of the first block
  of stage 4 sees the shape \<open>(1, 512, 1, 1, 1)\<close> and raises \<^verbatim>\<open>ValueError\<close>.
\<close>

theorem ResNet_forward_training_counterexample:
  "\<exists>r. model_resnet = Inr r \<and> ResNet_forward_shape r [1, 1, 32, 32, 32] = Inl ValueError"
proof -
  define l1 where "l1 = fst (make_layer 64 Bottleneck 64 3 1 0)"
  define l2 where "l2 = fst (make_layer 256 Bottleneck 128 4 2 0)"
  define l3 where "l3 = fst (make_layer 512 Bottleneck 256 23 2 0)"
  define l4 where "l4 = fst (make_layer 1024 Bottleneck 512 3 2 0)"
  define r where "r = \<lparr>r_inplanes = 2048,
             r_conv1 = \<lparr>in_channels = 1, out_channels = 64, kernel_size = 7, conv_stride = 2, padding = 3\<rparr>,
             r_bn1 = 64, r_maxpool = (3, 2, 1),
             r_layer1 = l1, r_layer2 = l2, r_layer3 = l3, r_layer4 = l4,
             r_fc = (2048, 1), r_training = True\<rparr>"
  have init: "model_resnet = Inr r"
    by (simp add: model_resnet_def resnet101_def ResNet_init_def Let_def split_beta make_layer_snd
        r_def l1_def l2_def l3_def l4_def)
  have nf: "\<not> single_value_per_channel True 1 n n n" if "1 < n" for n :: nat
    using that by (simp add: single_value_per_channel_def)
  have stem: "seq_e [conv3d_shape (r_conv1 r), batch_norm3d_shape True (r_bn1 r), relu_shape,
                     max_pool3d_shape (r_maxpool r)] [1, 1, 32, 32, 32] = Inr [1, 64, 8, 8, 8]"
    using stem_shape[where ch=1 and tr=True and b=1 and d=8 and h=8 and w=8] by (simp add: r_def)
  have s1: "layer_forward_shape True l1 [1, 64, 8, 8, 8] = Inr [1, 256, 8, 8, 8]"
    using layer_shape[where s=1 and inp=64 and bt=Bottleneck and planes=64 and d=8 and h=8 and w=8
        and tr=True and b=1 and blocks=3 and p=0] nf[of 8]
    by (simp add: l1_def)
  have s2: "layer_forward_shape True l2 [1, 256, 8, 8, 8] = Inr [1, 512, 4, 4, 4]"
    using layer_shape[where s=2 and inp=256 and bt=Bottleneck and planes=128 and d=4 and h=4 and w=4
        and tr=True and b=1 and blocks=4 and p=0] nf[of 4]
    by (simp add: l2_def)
  have s3: "layer_forward_shape True l3 [1, 512, 4, 4, 4] = Inr [1, 1024, 2, 2, 2]"
    using layer_shape[where s=2 and inp=512 and bt=Bottleneck and planes=256 and d=2 and h=2 and w=2
        and tr=True and b=1 and blocks=23 and p=0] nf[of 2]
    by (simp add: l3_def)
  have s4: "layer_forward_shape True l4 [1, 1024, 2, 2, 2] = Inl ValueError"
    unfolding l4_def by (rule layer4_fails)
  have split: "ResNet_forward_shape r x =
      seq_e ([conv3d_shape (r_conv1 r), batch_norm3d_shape True (r_bn1 r), relu_shape,
              max_pool3d_shape (r_maxpool r)] @
             [layer_forward_shape True l1] @ [layer_forward_shape True l2] @
             [layer_forward_shape True l3] @ [layer_forward_shape True l4] @
             [adaptive_avg_pool3d_shape, flatten_shape, linear_shape (r_fc r)]) x" for x
    by (simp add: ResNet_forward_shape_def r_def)
  have "ResNet_forward_shape r [1, 1, 32, 32, 32] = Inl ValueError"
    unfolding split seq_e_append[of "[_, _, _, _]"] stem seq_e_append[of "[_]"]
    by (simp only: seq_e.simps s1 s2 s3 s4 sum.case)
  with init show ?thesis by blast
qed

section \<open>The contrastive loss\<close>

lemma prod_list_butlast_last: "sh \<noteq> [] \<Longrightarrow> prod_list (butlast sh) * last sh = prod_list sh"
proof -
  assume "sh \<noteq> []"
  then have "sh = butlast sh @ [last sh]" by simp
  then have "prod_list sh = prod_list (butlast sh @ [last sh])" by simp
  then show ?thesis by simp
qed

lemma row_nth:
  assumes "r * w + w \<le> length xs"
  shows "row w r xs = map (\<lambda>j. xs ! (r * w + j)) [0..<w]"
  using assms by (auto simp: row_def list_eq_iff_nth_eq)

lemma sum_list_upt: "sum_list (map f [0..<n]) = (\<Sum>i<n. f i)"
  by (simp add: interv_sum_list_conv_sum_set_nat atLeast0LessThan)

lemma norm2_row:
  assumes "r * w + w \<le> length xs"
  shows "norm2 (row w r xs) = sqrt (\<Sum>j<w. (xs ! (r * w + j))\<^sup>2)"
  by (simp add: norm2_def row_nth[OF assms] comp_def sum_list_upt)

lemma row_bound: "r < n \<Longrightarrow> r * w + w \<le> n * (w::nat)"
proof -
  assume "r < n"
  then have "Suc r \<le> n" by simp
  then have "Suc r * w \<le> n * w" by (rule mult_le_mono1)
  then show ?thesis by simp
qed

lemma pairwise_distance_data:
  assumes wf: "well_formed x1" "well_formed x2" and sh: "tshape x1 = tshape x2" "tshape x1 \<noteq> []"
  shows "tdata (pairwise_distance x1 x2) =
         map (\<lambda>r. sqrt (\<Sum>j<last (tshape x1).
                (tdata x1 ! (r * last (tshape x1) + j) - tdata x2 ! (r * last (tshape x1) + j) + eps)\<^sup>2))
             [0..<prod_list (butlast (tshape x1))]"
proof -
  define w where "w = last (tshape x1)"
  define n where "n = prod_list (butlast (tshape x1))"
  define diff where "diff = map2 (\<lambda>a b. a - b + eps) (tdata x1) (tdata x2)"
  have len1: "length (tdata x1) = n * w" and len2: "length (tdata x2) = n * w"
    using wf sh prod_list_butlast_last[of "tshape x1"] by (simp_all add: well_formed_def n_def w_def)
  have len: "length diff = n * w" by (simp add: diff_def len1 len2)
  have "norm2 (row w r diff) =
        sqrt (\<Sum>j<w. (tdata x1 ! (r * w + j) - tdata x2 ! (r * w + j) + eps)\<^sup>2)" if "r < n" for r
  proof -
    have b: "r * w + w \<le> length diff" using row_bound[OF that] len by simp
    have "diff ! (r * w + j) = tdata x1 ! (r * w + j) - tdata x2 ! (r * w + j) + eps" if "j < w" for j
    proof -
      have "r * w + j < length diff" using b that by simp
      then show ?thesis by (simp add: diff_def)
    qed
    then show ?thesis by (simp add: norm2_row[OF b])
  qed
  then show ?thesis
    by (simp add: pairwise_distance_def Let_def w_def[symmetric] n_def[symmetric] diff_def[symmetric])
qed

text \<open>
  Claim C1, as amended. For two well-formed feature maps of one shape with at least one
  axis, the contrastive loss is the mean, over all positions of the axes before the last
  one, of \<open>max 0 (margin - d)\<close>, where \<open>d\<close> is the L2 norm along the last axis of
  \<open>features_x1 - features_x2 + eps\<close> with \<open>eps = 1e-6\<close>; it is \<^verbatim>\<open>nan\<close> when there is no such
  position. The feature vectors of a sample are not flattened.
\<close>

theorem contrastive_loss_last_axis:
  assumes wf: "well_formed x1" "well_formed x2" and sh: "tshape x1 = tshape x2" "tshape x1 \<noteq> []"
  shows "contrastive_loss x1 x2 margin =
     (let w = last (tshape x1); n = prod_list (butlast (tshape x1)) in
      if n = 0 then None
      else Some ((\<Sum>r<n. max 0 (margin -
                   sqrt (\<Sum>j<w. (tdata x1 ! (r * w + j) - tdata x2 ! (r * w + j) + eps)\<^sup>2))) / real n))"
  by (simp add: contrastive_loss_def mean_def clamp_min_def rsub_scalar_def Let_def
      pairwise_distance_data[OF assms] comp_def sum_list_upt)

lemma norm2_single: "norm2 [x] = \<bar>x\<bar>"
  by (simp add: norm2_def)

lemma upt_0_2: "[0..<2] = [0, 1]"
  by (simp add: upt_rec)

text \<open>On the two-channel example with margin 10 the mean runs over two distances.\<close>

theorem contrastive_loss_last_axis_witness:
  "contrastive_loss pair_x1 pair_x2 10 = Some (13 / 2 - eps)"
proof -
  have "well_formed pair_x1" "well_formed pair_x2" "tshape pair_x1 = tshape pair_x2" "tshape pair_x1 \<noteq> []"
    by (simp_all add: well_formed_def pair_x1_def pair_x2_def)
  from contrastive_loss_last_axis[OF this, of 10]
  have "contrastive_loss pair_x1 pair_x2 10 =
      Some ((\<Sum>r<2. max 0 (10 - sqrt (\<Sum>j<1. (tdata pair_x1 ! (r * 1 + j) - tdata pair_x2 ! (r * 1 + j) + eps)\<^sup>2))) / 2)"
    by (simp add: pair_x1_def pair_x2_def Let_def)
  also have "(\<Sum>r<2. max 0 (10 - sqrt (\<Sum>j<1. (tdata pair_x1 ! (r * 1 + j) - tdata pair_x2 ! (r * 1 + j) + eps)\<^sup>2)))
       = 13 - 2 * eps"
    by (simp add: pair_x1_def pair_x2_def eps_def lessThan_Suc numeral_2_eq_2)
  finally show ?thesis by (simp add: field_simps)
qed

lemma contrastive_loss_pair: "contrastive_loss pair_x1 pair_x2 10 = Some (13 / 2 - eps)"
  by (simp add: contrastive_loss_def pairwise_distance_def Let_def pair_x1_def pair_x2_def row_def
      norm2_single mean_def clamp_min_def rsub_scalar_def eps_def upt_0_2)

lemma sqrt25: "sqrt 25 = 5"
  by (rule real_sqrt_unique) simp_all

lemma spec_contrastive_loss_pair: "spec_contrastive_loss pair_x1 pair_x2 10 = Some 5"
  by (simp add: spec_contrastive_loss_def spec_sample_distance_def euclidean_distance_def Let_def
      pair_x1_def pair_x2_def row_def sqrt25)

text \<open>
  The claim as stated fails on the same example: the flattened feature vectors \<open>(3, 4)\<close>
  and \<open>(0, 0)\<close> of the one sample are at distance 5, which gives the loss 5, and the code
  returns \<open>13/2 - eps\<close>.
\<close>

theorem contrastive_loss_flattened_counterexample:
  "contrastive_loss pair_x1 pair_x2 10 \<noteq> spec_contrastive_loss pair_x1 pair_x2 10"
  by (simp add: contrastive_loss_pair spec_contrastive_loss_pair eps_def)

lemma sum_list_const: "(\<And>x. x \<in> set xs \<Longrightarrow> f x = c) \<Longrightarrow> sum_list (map f xs) = real (length xs) * c"
  by (induction xs) (simp_all add: algebra_simps)

lemma sum_list_mono2:
  "list_all2 (\<lambda>a b. f b \<le> f' a) xs ys \<Longrightarrow> sum_list (map f ys) \<le> (sum_list (map f' xs) :: real)"
  by (induction xs ys rule: list_all2_induct) (simp_all add: add_mono)

lemma contrastive_loss_distances:
  "contrastive_loss x1 x2 m =
     (if distances_of x1 x2 = [] then None
      else Some (sum_list (map (\<lambda>d. max 0 (m - d)) (distances_of x1 x2)) / real (length (distances_of x1 x2))))"
  by (simp add: contrastive_loss_def mean_def clamp_min_def rsub_scalar_def Let_def comp_def distances_of_def)

lemma distances_far: "distances_of feat_three feat_eps = [3]"
  by (simp add: distances_of_def pairwise_distance_def feat_three_def feat_eps_def row_def norm2_def)

lemma distances_near: "distances_of feat_zero feat_eps = [0]"
  by (simp add: distances_of_def pairwise_distance_def feat_zero_def feat_eps_def row_def norm2_def)


lemma eps_pos: "0 < eps"
  by (simp add: eps_def)

lemma distances_of_equal:
  assumes wf: "well_formed x" and sh: "tshape x \<noteq> []"
  shows "distances_of x x =
         replicate (prod_list (butlast (tshape x))) (eps * sqrt (real (last (tshape x))))"
proof -
  have "sqrt (\<Sum>j<w. (tdata x ! (r * w + j) - tdata x ! (r * w + j) + eps)\<^sup>2) = eps * sqrt (real w)"
    for r w :: nat
  proof -
    have "(\<Sum>j<w. (tdata x ! (r * w + j) - tdata x ! (r * w + j) + eps)\<^sup>2) = real w * eps\<^sup>2"
      by simp
    then show ?thesis using eps_pos by (simp add: real_sqrt_mult)
  qed
  then show ?thesis
    using pairwise_distance_data[OF wf wf refl sh]
    by (simp add: distances_of_def map_replicate_const)
qed

lemma contrastive_loss_equal:
  assumes wf: "well_formed x" and sh: "tshape x \<noteq> []" and ne: "prod_list (butlast (tshape x)) \<noteq> 0"
  shows "contrastive_loss x x m = Some (max 0 (m - eps * sqrt (real (last (tshape x)))))"
  using ne
  by (simp add: contrastive_loss_distances distances_of_equal[OF wf sh] sum_list_replicate)

lemma distances_of_length:
  assumes "well_formed x1" "well_formed x2" "tshape x1 = tshape x2" "tshape x1 \<noteq> []"
  shows "length (distances_of x1 x2) = prod_list (butlast (tshape x1))"
  by (simp add: distances_of_def pairwise_distance_data[OF assms])

text \<open>
  Claim C4, as amended. Take two well-formed feature maps of one shape with at least one
  axis, and at least one position of the axes before the last, and a margin \<open>m > 0\<close>.
  The distances are the ones the code computes, not the per-sample distances of the
  flattened feature vectors: one for every position of the axes before the last, the
  L2 norm along the last axis of \<open>features_x1 - features_x2 + eps\<close> with \<open>eps = 1e-6\<close>. In these
  distances: the loss is 0 when every distance is at least \<open>m\<close>; it is \<open>m\<close>, so strictly
  positive and at most \<open>m\<close>, when every distance is 0; and it does not increase when
  distances increase, position by position. When the two feature maps are equal the
  distances are not 0 but \<open>eps * sqrt W\<close>, with \<open>W\<close> the length of the last axis, and the loss is
  \<open>max 0 (m - eps * sqrt W)\<close>: at most \<open>m\<close>, and strictly positive exactly when
  \<open>eps * sqrt W < m\<close>.
\<close>

theorem contrastive_loss_properties:
  assumes m: "0 < m"
    and wf: "well_formed x1" "well_formed x2"
    and sh: "tshape x1 = tshape x2" "tshape x1 \<noteq> []"
    and ne: "prod_list (butlast (tshape x1)) \<noteq> 0"
  shows "distances_of x1 x2 =
           map (\<lambda>r. sqrt (\<Sum>j<last (tshape x1).
                  (tdata x1 ! (r * last (tshape x1) + j) - tdata x2 ! (r * last (tshape x1) + j) + eps)\<^sup>2))
               [0..<prod_list (butlast (tshape x1))] \<and>
         ((\<forall>d \<in> set (distances_of x1 x2). m \<le> d) \<longrightarrow> contrastive_loss x1 x2 m = Some 0) \<and>
         ((\<forall>d \<in> set (distances_of x1 x2). d = 0) \<longrightarrow> contrastive_loss x1 x2 m = Some m) \<and>
         (\<forall>y1 y2. well_formed y1 \<and> well_formed y2 \<and> tshape y1 = tshape y2 \<and> tshape y1 \<noteq> [] \<and>
                  list_all2 (\<le>) (distances_of x1 x2) (distances_of y1 y2) \<longrightarrow>
            (\<exists>l l'. contrastive_loss x1 x2 m = Some l \<and> contrastive_loss y1 y2 m = Some l' \<and> l' \<le> l)) \<and>
         (x1 = x2 \<longrightarrow>
            (\<exists>l. contrastive_loss x1 x2 m = Some l \<and>
                 l = max 0 (m - eps * sqrt (real (last (tshape x1)))) \<and>
                 l \<le> m \<and> (0 < l \<longleftrightarrow> eps * sqrt (real (last (tshape x1))) < m)))"
proof (intro conjI impI allI)
  show "distances_of x1 x2 =
           map (\<lambda>r. sqrt (\<Sum>j<last (tshape x1).
                  (tdata x1 ! (r * last (tshape x1) + j) - tdata x2 ! (r * last (tshape x1) + j) + eps)\<^sup>2))
               [0..<prod_list (butlast (tshape x1))]"
    by (simp add: distances_of_def pairwise_distance_data[OF wf sh])
next
  have ne': "distances_of x1 x2 \<noteq> []"
    using distances_of_length[OF wf sh] ne by auto
  {
    assume "\<forall>d \<in> set (distances_of x1 x2). m \<le> d"
    then have "sum_list (map (\<lambda>d. max 0 (m - d)) (distances_of x1 x2)) = real (length (distances_of x1 x2)) * 0"
      by (intro sum_list_const) (auto simp: max_def)
    then show "contrastive_loss x1 x2 m = Some 0"
      using ne' by (simp add: contrastive_loss_distances)
  }
  {
    assume "\<forall>d \<in> set (distances_of x1 x2). d = 0"
    then have "sum_list (map (\<lambda>d. max 0 (m - d)) (distances_of x1 x2)) = real (length (distances_of x1 x2)) * m"
      using m by (intro sum_list_const) (auto simp: max_def)
    then show "contrastive_loss x1 x2 m = Some m"
      using ne' by (simp add: contrastive_loss_distances)
  }
  {
    fix y1 y2
    assume y: "well_formed y1 \<and> well_formed y2 \<and> tshape y1 = tshape y2 \<and> tshape y1 \<noteq> [] \<and>
               list_all2 (\<le>) (distances_of x1 x2) (distances_of y1 y2)"
    then have le: "list_all2 (\<le>) (distances_of x1 x2) (distances_of y1 y2)" by simp
    then have len: "length (distances_of y1 y2) = length (distances_of x1 x2)"
      by (simp add: list_all2_lengthD)
    then have ney: "distances_of y1 y2 \<noteq> []" using ne' by auto
    have "list_all2 (\<lambda>a b. max 0 (m - b) \<le> max 0 (m - a)) (distances_of x1 x2) (distances_of y1 y2)"
      using le by (rule list_all2_mono) (auto simp: max_def)
    then have "sum_list (map (\<lambda>d. max 0 (m - d)) (distances_of y1 y2))
          \<le> sum_list (map (\<lambda>d. max 0 (m - d)) (distances_of x1 x2))"
      by (rule sum_list_mono2)
    then have "sum_list (map (\<lambda>d. max 0 (m - d)) (distances_of y1 y2)) / real (length (distances_of y1 y2))
          \<le> sum_list (map (\<lambda>d. max 0 (m - d)) (distances_of x1 x2)) / real (length (distances_of x1 x2))"
      by (simp add: len divide_right_mono)
    then show "\<exists>l l'. contrastive_loss x1 x2 m = Some l \<and> contrastive_loss y1 y2 m = Some l' \<and> l' \<le> l"
      using ne' ney by (simp add: contrastive_loss_distances)
  }
  {
    assume "x1 = x2"
    then have "contrastive_loss x1 x2 m = Some (max 0 (m - eps * sqrt (real (last (tshape x1)))))"
      using contrastive_loss_equal[OF wf(1) sh(2) ne] by simp
    moreover have "0 \<le> eps * sqrt (real (last (tshape x1)))" using eps_pos by simp
    ultimately show "\<exists>l. contrastive_loss x1 x2 m = Some l \<and>
                 l = max 0 (m - eps * sqrt (real (last (tshape x1)))) \<and>
                 l \<le> m \<and> (0 < l \<longleftrightarrow> eps * sqrt (real (last (tshape x1))) < m)"
      using m by (auto simp: max_def)
  }
qed

lemma distances_equal_zero: "distances_of feat_zero feat_zero = [eps]"
  using distances_of_equal[of feat_zero] by (simp add: feat_zero_def well_formed_def)

lemma distances_pair: "distances_of pair_x1 pair_x2 = [3 + eps, 4 + eps]"
  by (simp add: distances_of_def pairwise_distance_def pair_x1_def pair_x2_def row_def norm2_single
      upt_0_2 Let_def eps_def)

text \<open>
  One distance of 3 against one distance of 0 at margin 1, and the feature map \<open>(0)\<close>
  against itself.
\<close>

theorem contrastive_loss_properties_witness:
  "distances_of feat_three feat_eps = [3] \<and> contrastive_loss feat_three feat_eps 1 = Some 0 \<and>
   distances_of feat_zero feat_eps = [0] \<and> contrastive_loss feat_zero feat_eps 1 = Some 1 \<and>
   (\<exists>l l'. contrastive_loss feat_zero feat_eps 1 = Some l \<and>
           contrastive_loss feat_three feat_eps 1 = Some l' \<and> l' \<le> l) \<and>
   contrastive_loss feat_zero feat_zero 1 = Some (1 - eps)"
proof -
  have wf: "well_formed feat_three" "well_formed feat_eps" "well_formed feat_zero"
    by (simp_all add: well_formed_def feat_three_def feat_eps_def feat_zero_def)
  have sh: "tshape feat_three = tshape feat_eps" "tshape feat_three \<noteq> []"
    "tshape feat_zero = tshape feat_eps" "tshape feat_zero \<noteq> []" "tshape feat_zero = tshape feat_zero"
    "prod_list (butlast (tshape feat_three)) \<noteq> 0" "prod_list (butlast (tshape feat_zero)) \<noteq> 0"
    "tshape feat_eps = tshape feat_eps"
    by (simp_all add: feat_three_def feat_eps_def feat_zero_def)
  have one: "(0::real) < 1" by simp
  note far = contrastive_loss_properties[OF one wf(1) wf(2) sh(1) sh(2) sh(6)]
  note near = contrastive_loss_properties[OF one wf(3) wf(2) sh(3) sh(4) sh(7)]
  note same = contrastive_loss_properties[OF one wf(3) wf(3) sh(5) sh(4) sh(7)]
  have c1: "contrastive_loss feat_three feat_eps 1 = Some 0"
    using far by (simp add: distances_far)
  have c2: "contrastive_loss feat_zero feat_eps 1 = Some 1"
    using near by (simp add: distances_near)
  have "well_formed feat_three \<and> well_formed feat_eps \<and> tshape feat_three = tshape feat_eps \<and>
        tshape feat_three \<noteq> [] \<and>
        list_all2 (\<le>) (distances_of feat_zero feat_eps) (distances_of feat_three feat_eps)"
    using wf sh by (simp add: distances_far distances_near)
  with near have c3: "\<exists>l l'. contrastive_loss feat_zero feat_eps 1 = Some l \<and>
      contrastive_loss feat_three feat_eps 1 = Some l' \<and> l' \<le> l" by blast
  have "contrastive_loss feat_zero feat_zero 1 = Some (max 0 (1 - eps * sqrt (real (last (tshape feat_zero)))))"
    using same by auto
  then have c4: "contrastive_loss feat_zero feat_zero 1 = Some (1 - eps)"
    by (simp add: feat_zero_def eps_def)
  from c1 c2 c3 c4 show ?thesis by (simp add: distances_far distances_near)
qed

lemma spec_distance_pair: "spec_sample_distance pair_x1 pair_x2 0 = 5"
  by (simp add: spec_sample_distance_def euclidean_distance_def Let_def pair_x1_def pair_x2_def
      row_def sqrt25)

lemma spec_distance_zero: "spec_sample_distance feat_zero feat_zero 0 = 0"
  by (simp add: spec_sample_distance_def euclidean_distance_def Let_def feat_zero_def row_def)

lemma spec_distance_eps: "spec_sample_distance feat_zero feat_eps 0 = eps"
  using eps_pos
  by (simp add: spec_sample_distance_def euclidean_distance_def Let_def feat_zero_def feat_eps_def row_def)

text \<open>
  With the per-sample distance of the flattened feature vectors, as the claim has it,
  every part fails. The one sample of the two-channel pair is at distance 5, above the
  margin 9/2, and the loss is \<open>1 - eps\<close>, not 0. The feature map \<open>(0)\<close> is at distance 0 from
  itself, and at margin \<open>eps\<close> the loss is 0, not strictly positive. From \<open>((0), (0))\<close> to
  \<open>((0), (eps))\<close> the distance grows from 0 to \<open>eps\<close> and the loss grows from \<open>1 - eps\<close> to 1.
  And on feature maps with no sample the loss is \<^verbatim>\<open>nan\<close>.
\<close>

theorem contrastive_loss_per_sample_counterexample:
  "spec_sample_distance pair_x1 pair_x2 0 = 5 \<and>
   contrastive_loss pair_x1 pair_x2 (9 / 2) = Some (1 - eps) \<and>
   spec_sample_distance feat_zero feat_zero 0 = 0 \<and>
   contrastive_loss feat_zero feat_zero eps = Some 0 \<and>
   spec_sample_distance feat_zero feat_eps 0 = eps \<and>
   contrastive_loss feat_zero feat_zero 1 = Some (1 - eps) \<and>
   contrastive_loss feat_zero feat_eps 1 = Some 1 \<and>
   contrastive_loss empty_features empty_features 1 = None \<and>
   0 < eps \<and> eps < 1"
proof -
  have a: "contrastive_loss pair_x1 pair_x2 (9 / 2) = Some (1 - eps)"
    by (simp add: contrastive_loss_distances distances_pair eps_def)
  have b: "contrastive_loss feat_zero feat_zero eps = Some 0"
    by (simp add: contrastive_loss_distances distances_equal_zero)
  have c: "contrastive_loss feat_zero feat_zero 1 = Some (1 - eps)"
    by (simp add: contrastive_loss_distances distances_equal_zero eps_def)
  have d: "contrastive_loss feat_zero feat_eps 1 = Some 1"
    by (simp add: contrastive_loss_distances distances_near)
  have e: "contrastive_loss empty_features empty_features 1 = None"
    by (simp add: distances_of_def pairwise_distance_def contrastive_loss_def mean_def
        clamp_min_def rsub_scalar_def empty_features_def Let_def)
  show ?thesis
    using a b c d e spec_distance_pair spec_distance_zero spec_distance_eps eps_pos
    by (simp add: eps_def)
qed

section \<open>The forward passes\<close>

lemma ResNet_forward_split:
  "ResNet_forward iadd r (x, s) =
     (case feature_extractor iadd r (x, s) of
        Inl e \<Rightarrow> Inl e
      | Inr (features, s') \<Rightarrow> head r (features, s'))"
proof -
  let ?pre = "[kernel_m (rm_conv1 r), batch_norm_m (rm_bn1 r), relu_m, kernel_m (rm_maxpool r),
      layer_m iadd (rm_layer1 r), layer_m iadd (rm_layer2 r),
      layer_m iadd (rm_layer3 r), layer_m iadd (rm_layer4 r)]"
  have fe: "feature_extractor iadd r = seq_e ?pre"
    by (simp add: feature_extractor_def children_def Let_def)
  have fw: "ResNet_forward iadd r = seq_e (?pre @ [kernel_m (rm_avgpool r), flatten_m, kernel_m (rm_fc r)])"
    by (simp add: ResNet_forward_def)
  show ?thesis
    unfolding fe fw seq_e_append head_def by (simp split: sum.splits)
qed

text \<open>
  Claim C2. Started on the same input in the same module state (mode, generator
  position, running statistics), the feature-extraction view, that is the children of the
  backbone without the last two, run in order, computes what \<^verbatim>\<open>ResNet.forward\<close> computes
  up to and including \<^verbatim>\<open>layer4\<close>: the full forward pass is the view followed by the
  adaptive average pool, the flatten and the linear head, and raises where the view
  raises. The view is the stem and the four stages, with neither pool nor head.
\<close>

theorem feature_extractor_is_prefix:
  "ResNet_forward iadd r (x, s) =
     (case feature_extractor iadd r (x, s) of
        Inl e \<Rightarrow> Inl e
      | Inr (features, s') \<Rightarrow> head r (features, s')) \<and>
   feature_extractor iadd r =
     seq_e [kernel_m (rm_conv1 r), batch_norm_m (rm_bn1 r), relu_m, kernel_m (rm_maxpool r),
            layer_m iadd (rm_layer1 r), layer_m iadd (rm_layer2 r),
            layer_m iadd (rm_layer3 r), layer_m iadd (rm_layer4 r)]"
  using ResNet_forward_split[of iadd r x s]
  by (simp add: feature_extractor_def children_def Let_def)

lemmas example_defs = example_kernel_def example_bn_def example_iadd_def example_block_def
  example_resnet_def example_input_def example_state_def

lemma example_features:
  "feature_extractor example_iadd example_resnet (example_input, example_state False) =
     Inr (\<lparr>tshape = [1, 1, 1, 1, 2], tdata = [2, 0]\<rparr>, example_state False)"
  by (simp add: feature_extractor_def children_def Let_def layer_m_def Bottleneck_forward_def
      kernel_m_def batch_norm_m_def relu_m_def relu_def example_defs)

lemma example_head:
  "head example_resnet (\<lparr>tshape = [1, 1, 1, 1, 2], tdata = [2, 0]\<rparr>, example_state False) =
     Inr (\<lparr>tshape = [1, 2], tdata = [2, 0]\<rparr>, example_state False)"
  apply (simp add: head_def kernel_m_def example_kernel_def example_resnet_def)
  apply (simp add: flatten_m_def)
  done

lemma example_reg:
  "ResNet_forward example_iadd example_resnet (example_input, example_state False) =
     Inr (\<lparr>tshape = [1, 2], tdata = [2, 0]\<rparr>, example_state False)"
  by (simp only: ResNet_forward_split example_features sum.case prod.case example_head)

text \<open>On the example backbone in inference mode.\<close>

theorem feature_extractor_is_prefix_witness:
  "feature_extractor example_iadd example_resnet (example_input, example_state False) =
     Inr (\<lparr>tshape = [1, 1, 1, 1, 2], tdata = [2, 0]\<rparr>, example_state False) \<and>
   ResNet_forward example_iadd example_resnet (example_input, example_state False) =
     head example_resnet (\<lparr>tshape = [1, 1, 1, 1, 2], tdata = [2, 0]\<rparr>, example_state False)"
proof -
  have "ResNet_forward example_iadd example_resnet (example_input, example_state False) =
     (case feature_extractor example_iadd example_resnet (example_input, example_state False) of
        Inl e \<Rightarrow> Inl e
      | Inr (features, s') \<Rightarrow> head example_resnet (features, s'))"
    using feature_extractor_is_prefix[of example_iadd example_resnet example_input "example_state False"]
    by (rule conjunct1)
  then show ?thesis by (simp only: example_features sum.case prod.case simp_thms)
qed

text \<open>
  Claim C9. \<^verbatim>\<open>ModelComb.__init__\<close> ignores \<^verbatim>\<open>n_classes\<close> and \<^verbatim>\<open>n_input_channels\<close>: whatever is
  passed for them (or left to the defaults), the constructed model is the same, it holds
  the \<^verbatim>\<open>resnet\<close> argument, and its forward pass is the same function.
\<close>

theorem ModelComb_init_ignores:
  "ModelComb_init resnet a b = ModelComb_init resnet c d \<and>
   mc_resnet (ModelComb_init resnet a b) = resnet \<and>
   ModelComb_forward iadd (ModelComb_init resnet a b) = ModelComb_forward iadd (ModelComb_init resnet c d)"
  by (simp add: ModelComb_init_def)

text \<open>The notebook's arguments against other ones, on the example backbone.\<close>

theorem ModelComb_init_ignores_witness:
  "ModelComb_forward example_iadd (ModelComb_init example_resnet (Some 1) (Some 1)) =
   ModelComb_forward example_iadd (ModelComb_init example_resnet None (Some 3))"
  using ModelComb_init_ignores[of example_resnet "Some 1" "Some 1" None "Some 3" example_iadd]
  by simp

subsection \<open>Inference mode\<close>

text \<open>In inference mode no module writes the state: each leaves it as it found it.\<close>

lemma kernel_m_state: "kernel_m k (x, s) = Inr (y, s') \<Longrightarrow> s' = s"
  by (auto simp: kernel_m_def split: sum.splits)

lemma relu_m_state: "relu_m (x, s) = Inr (y, s') \<Longrightarrow> s' = s"
  by (auto simp: relu_m_def)

lemma flatten_m_state: "flatten_m (x, s) = Inr (y, s') \<Longrightarrow> s' = s"
  by (auto simp: flatten_m_def split: sum.splits)

lemma batch_norm_m_eval_state:
  "\<not> training_mode s \<Longrightarrow> batch_norm_m bn (x, s) = Inr (y, s') \<Longrightarrow> s' = s"
  by (auto simp: batch_norm_m_def split: sum.splits)

lemma dropout_m_eval: "\<not> training_mode s \<Longrightarrow> dropout_m d (x, s) = Inr (x, s)"
  by (cases d) simp_all

lemma dropout_m_zero_rate: "dropout_p d = 0 \<Longrightarrow> dropout_m d (x, s) = Inr (x, s)"
  by (cases d) simp_all

lemma dropout_m_eval_state:
  "\<not> training_mode s \<Longrightarrow> dropout_m d (x, s) = Inr (y, s') \<Longrightarrow> s' = s"
  by (simp add: dropout_m_eval)

lemma seq_e_state:
  assumes "\<And>f x y s'. f \<in> set fs \<Longrightarrow> f (x, s) = Inr (y, s') \<Longrightarrow> s' = s"
    and "seq_e fs (x, s) = Inr (y, s')"
  shows "s' = s"
  using assms
proof (induction fs arbitrary: x)
  case Nil
  then show ?case by simp
next
  case (Cons f fs)
  from Cons.prems(2) obtain z t where step: "f (x, s) = Inr (z, t)" and rest: "seq_e fs (z, t) = Inr (y, s')"
    by (auto split: sum.splits)
  have "t = s" using Cons.prems(1)[of f x z t] step by simp
  with rest have r: "seq_e fs (z, s) = Inr (y, s')" by simp
  show ?case
  proof (rule Cons.IH[OF _ r])
    fix g x y s'
    assume "g \<in> set fs" "g (x, s) = Inr (y, s')"
    then show "s' = s" using Cons.prems(1)[of g x y s'] by simp
  qed
qed

lemma downsample_m_eval_state:
  assumes "\<not> training_mode s" "downsample_m ds (x, s) = Inr (y, s')"
  shows "s' = s"
proof (cases ds)
  case None
  then show ?thesis using assms by simp
next
  case (Some cn)
  obtain c n where cn: "cn = (c, n)" by (cases cn)
  have "seq_e [kernel_m c, batch_norm_m n] (x, s) = Inr (y, s')" using assms Some cn by simp
  then show ?thesis
    by (rule seq_e_state[rotated]) (use assms(1) in \<open>auto dest: kernel_m_state batch_norm_m_eval_state\<close>)
qed

lemma BasicBlock_forward_eval_state:
  assumes ev: "\<not> training_mode s" and run: "BasicBlock_forward iadd b (x, s) = Inr (y, s')"
  shows "s' = s"
proof -
  from run obtain out s1 residual s2 out' where
    main: "seq_e [kernel_m (bbm_conv1 b), batch_norm_m (bbm_bn1 b), relu_m, dropout_m (bbm_dropout b),
                  kernel_m (bbm_conv2 b), batch_norm_m (bbm_bn2 b)] (x, s) = Inr (out, s1)"
    and ds: "downsample_m (bbm_downsample b) (x, s1) = Inr (residual, s2)"
    and add: "iadd out residual = Inr out'"
    and fin: "relu_m (out', s2) = Inr (y, s')"
    by (auto simp: BasicBlock_forward_def split: sum.splits prod.splits)
  have "s1 = s" using main
    by (rule seq_e_state[rotated])
       (use ev in \<open>auto dest: kernel_m_state batch_norm_m_eval_state relu_m_state dropout_m_eval_state\<close>)
  moreover have "s2 = s1" using ds ev \<open>s1 = s\<close> downsample_m_eval_state by blast
  moreover have "s' = s2" using fin by (rule relu_m_state)
  ultimately show ?thesis by simp
qed

lemma Bottleneck_forward_eval_state:
  assumes ev: "\<not> training_mode s" and run: "Bottleneck_forward iadd b (x, s) = Inr (y, s')"
  shows "s' = s"
proof -
  from run obtain out s1 residual s2 out' where
    main: "seq_e [kernel_m (btm_conv1 b), batch_norm_m (btm_bn1 b), relu_m, dropout_m (btm_dropout b),
                  kernel_m (btm_conv2 b), batch_norm_m (btm_bn2 b), relu_m, dropout_m (btm_dropout b),
                  kernel_m (btm_conv3 b), batch_norm_m (btm_bn3 b)] (x, s) = Inr (out, s1)"
    and ds: "downsample_m (btm_downsample b) (x, s1) = Inr (residual, s2)"
    and add: "iadd out residual = Inr out'"
    and fin: "relu_m (out', s2) = Inr (y, s')"
    by (auto simp: Bottleneck_forward_def split: sum.splits prod.splits)
  have "s1 = s" using main
    by (rule seq_e_state[rotated])
       (use ev in \<open>auto dest: kernel_m_state batch_norm_m_eval_state relu_m_state dropout_m_eval_state\<close>)
  moreover have "s2 = s1" using ds ev \<open>s1 = s\<close> downsample_m_eval_state by blast
  moreover have "s' = s2" using fin by (rule relu_m_state)
  ultimately show ?thesis by simp
qed

lemma block_forward_eval_state:
  "\<not> training_mode s \<Longrightarrow> block_forward iadd b (x, s) = Inr (y, s') \<Longrightarrow> s' = s"
  by (cases b) (auto dest: BasicBlock_forward_eval_state Bottleneck_forward_eval_state)

lemma layer_m_eval_state:
  assumes "\<not> training_mode s" "layer_m iadd blocks (x, s) = Inr (y, s')"
  shows "s' = s"
  using assms(2) unfolding layer_m_def
  by (rule seq_e_state[rotated]) (use assms(1) in \<open>auto dest: block_forward_eval_state\<close>)

lemma ResNet_forward_eval_state:
  assumes "\<not> training_mode s" "ResNet_forward iadd r (x, s) = Inr (y, s')"
  shows "s' = s"
  using assms(2) unfolding ResNet_forward_def
  by (rule seq_e_state[rotated])
     (use assms(1) in \<open>auto dest: kernel_m_state batch_norm_m_eval_state relu_m_state
        layer_m_eval_state flatten_m_state\<close>)

lemma feature_extractor_eval_state:
  assumes "\<not> training_mode s" "feature_extractor iadd r (x, s) = Inr (y, s')"
  shows "s' = s"
  using assms(2) unfolding feature_extractor_def children_def Let_def
  by (rule seq_e_state[rotated])
     (use assms(1) in \<open>auto dest: kernel_m_state batch_norm_m_eval_state relu_m_state
        layer_m_eval_state\<close>)

text \<open>
  Claim C8. In inference mode, when the twin encoder is given the same tensor for \<^verbatim>\<open>x1\<close>
  and \<^verbatim>\<open>x2\<close> and returns, the two feature maps are equal and the two predictions are
  equal (and the module state is what it was).
\<close>

theorem twin_encoder_equal_inputs:
  assumes ev: "\<not> training_mode s"
    and run: "ModelComb_forward iadd m x x s = Inr ((features_x1, features_x2, reg0, reg1), s')"
  shows "features_x1 = features_x2 \<and> reg0 = reg1 \<and> s' = s"
proof -
  from run obtain s1 s2 s3 where
    a: "ResNet_forward iadd (mc_resnet m) (x, s) = Inr (reg0, s1)" and
    b: "ResNet_forward iadd (mc_resnet m) (x, s1) = Inr (reg1, s2)" and
    c: "feature_extractor iadd (mc_resnet m) (x, s2) = Inr (features_x1, s3)" and
    d: "feature_extractor iadd (mc_resnet m) (x, s3) = Inr (features_x2, s')"
    by (auto simp: ModelComb_forward_def split: sum.splits prod.splits)
  have s1: "s1 = s" using ResNet_forward_eval_state[OF ev a] .
  have s2: "s2 = s" using ResNet_forward_eval_state[OF ev b[unfolded s1]] .
  have s3: "s3 = s" using feature_extractor_eval_state[OF ev c[unfolded s2]] .
  have s4: "s' = s" using feature_extractor_eval_state[OF ev d[unfolded s3]] .
  from a b have "reg0 = reg1" unfolding s1 s2 by simp
  moreover from c d have "features_x1 = features_x2" unfolding s2 s3 s4 by simp
  ultimately show ?thesis using s4 by simp
qed

text \<open>The example backbone returns on the example input.\<close>

theorem twin_encoder_equal_inputs_witness:
  "\<exists>f r. ModelComb_forward example_iadd (ModelComb_init example_resnet None None)
            example_input example_input (example_state False)
          = Inr ((f, f, r, r), example_state False)"
proof -
  have run: "ModelComb_forward example_iadd (ModelComb_init example_resnet None None)
            example_input example_input (example_state False)
     = Inr ((\<lparr>tshape = [1, 1, 1, 1, 2], tdata = [2, 0]\<rparr>, \<lparr>tshape = [1, 1, 1, 1, 2], tdata = [2, 0]\<rparr>,
             \<lparr>tshape = [1, 2], tdata = [2, 0]\<rparr>, \<lparr>tshape = [1, 2], tdata = [2, 0]\<rparr>), example_state False)"
    by (simp add: ModelComb_forward_def ModelComb_init_def example_features example_reg)
  have ev: "\<not> training_mode (example_state False)" by (simp add: example_state_def)
  from twin_encoder_equal_inputs[OF ev run] run show ?thesis by blast
qed

subsection \<open>Dropout in the blocks\<close>

text \<open>
  Two sequences of modules that agree, module by module, on every input in a state that
  none of them writes compute the same from that state.
\<close>

lemma seq_e_eval_cong:
  assumes "length fs = length gs"
    and "\<And>i x. i < length fs \<Longrightarrow> (fs ! i) (x, s) = (gs ! i) (x, s)"
    and "\<And>i x y s'. i < length fs \<Longrightarrow> (fs ! i) (x, s) = Inr (y, s') \<Longrightarrow> s' = s"
  shows "seq_e fs (x, s) = seq_e gs (x, s)"
  using assms
proof (induction fs gs arbitrary: x rule: list_induct2)
  case Nil
  then show ?case by simp
next
  case (Cons f fs g gs)
  have hd: "f (x, s) = g (x, s)" using Cons.prems(1)[of 0 x] by simp
  show ?case
  proof (cases "f (x, s)")
    case (Inl e)
    then show ?thesis using hd by simp
  next
    case (Inr ys)
    obtain y s' where ys: "ys = (y, s')" by (cases ys)
    have "s' = s" using Cons.prems(2)[of 0 x y s'] Inr ys by simp
    moreover have "seq_e fs (y, s) = seq_e gs (y, s)"
    proof (rule Cons.IH)
      fix i x assume "i < length fs"
      then show "(fs ! i) (x, s) = (gs ! i) (x, s)" using Cons.prems(1)[of "Suc i" x] by simp
    next
      fix i x y s' assume "i < length fs" "(fs ! i) (x, s) = Inr (y, s')"
      then show "s' = s" using Cons.prems(2)[of "Suc i" x y s'] by simp
    qed
    ultimately show ?thesis using Inr ys hd by simp
  qed
qed

lemma seq_e_eval_cong_all2:
  assumes "list_all2 (\<lambda>f g. (\<forall>x. f (x, s) = g (x, s)) \<and> (\<forall>x y s'. f (x, s) = Inr (y, s') \<longrightarrow> s' = s)) fs gs"
  shows "seq_e fs (x, s) = seq_e gs (x, s)"
  using assms
  by (intro seq_e_eval_cong) (auto simp: list_all2_conv_all_nth)

text \<open>
  In inference mode the dropout of a block has no effect: the block computes what it
  computes with any other dropout module in its place, in particular with rate 0.
\<close>

lemma BasicBlock_forward_eval_dropout:
  assumes ev: "\<not> training_mode s"
  shows "BasicBlock_forward iadd b (x, s) = BasicBlock_forward iadd (b\<lparr>bbm_dropout := d\<rparr>) (x, s)"
proof -
  have "seq_e [kernel_m (bbm_conv1 b), batch_norm_m (bbm_bn1 b), relu_m, dropout_m (bbm_dropout b),
               kernel_m (bbm_conv2 b), batch_norm_m (bbm_bn2 b)] (x, s) =
        seq_e [kernel_m (bbm_conv1 b), batch_norm_m (bbm_bn1 b), relu_m, dropout_m d,
               kernel_m (bbm_conv2 b), batch_norm_m (bbm_bn2 b)] (x, s)"
  proof (rule seq_e_eval_cong_all2, intro list_all2_Cons[THEN iffD2] conjI allI impI)
    show "list_all2 (\<lambda>f g. (\<forall>x. f (x, s) = g (x, s)) \<and> (\<forall>x y s'. f (x, s) = Inr (y, s') \<longrightarrow> s' = s)) [] []"
      by simp
  qed (use ev in \<open>simp_all add: dropout_m_eval kernel_m_state batch_norm_m_eval_state relu_m_state\<close>)
  moreover have "bbm_conv1 (b\<lparr>bbm_dropout := d\<rparr>) = bbm_conv1 b" "bbm_bn1 (b\<lparr>bbm_dropout := d\<rparr>) = bbm_bn1 b"
    "bbm_conv2 (b\<lparr>bbm_dropout := d\<rparr>) = bbm_conv2 b" "bbm_bn2 (b\<lparr>bbm_dropout := d\<rparr>) = bbm_bn2 b"
    "bbm_downsample (b\<lparr>bbm_dropout := d\<rparr>) = bbm_downsample b" "bbm_dropout (b\<lparr>bbm_dropout := d\<rparr>) = d"
    by simp_all
  ultimately show ?thesis unfolding BasicBlock_forward_def prod.case by (simp only:)
qed


lemma Bottleneck_forward_eval_dropout:
  assumes ev: "\<not> training_mode s"
  shows "Bottleneck_forward iadd b (x, s) = Bottleneck_forward iadd (b\<lparr>btm_dropout := d\<rparr>) (x, s)"
proof -
  have "seq_e [kernel_m (btm_conv1 b), batch_norm_m (btm_bn1 b), relu_m, dropout_m (btm_dropout b),
               kernel_m (btm_conv2 b), batch_norm_m (btm_bn2 b), relu_m, dropout_m (btm_dropout b),
               kernel_m (btm_conv3 b), batch_norm_m (btm_bn3 b)] (x, s) =
        seq_e [kernel_m (btm_conv1 b), batch_norm_m (btm_bn1 b), relu_m, dropout_m d,
               kernel_m (btm_conv2 b), batch_norm_m (btm_bn2 b), relu_m, dropout_m d,
               kernel_m (btm_conv3 b), batch_norm_m (btm_bn3 b)] (x, s)"
  proof (rule seq_e_eval_cong_all2, intro list_all2_Cons[THEN iffD2] conjI allI impI)
    show "list_all2 (\<lambda>f g. (\<forall>x. f (x, s) = g (x, s)) \<and> (\<forall>x y s'. f (x, s) = Inr (y, s') \<longrightarrow> s' = s)) [] []"
      by simp
  qed (use ev in \<open>simp_all add: dropout_m_eval kernel_m_state batch_norm_m_eval_state relu_m_state\<close>)
  moreover have "btm_conv1 (b\<lparr>btm_dropout := d\<rparr>) = btm_conv1 b" "btm_bn1 (b\<lparr>btm_dropout := d\<rparr>) = btm_bn1 b"
    "btm_conv2 (b\<lparr>btm_dropout := d\<rparr>) = btm_conv2 b" "btm_bn2 (b\<lparr>btm_dropout := d\<rparr>) = btm_bn2 b"
    "btm_conv3 (b\<lparr>btm_dropout := d\<rparr>) = btm_conv3 b" "btm_bn3 (b\<lparr>btm_dropout := d\<rparr>) = btm_bn3 b"
    "btm_downsample (b\<lparr>btm_dropout := d\<rparr>) = btm_downsample b" "btm_dropout (b\<lparr>btm_dropout := d\<rparr>) = d"
    by simp_all
  ultimately show ?thesis unfolding Bottleneck_forward_def prod.case by (simp only:)
qed

text \<open>
  The rate is an argument of both block constructors; \<^verbatim>\<open>ResNet.__init__\<close> passes its own
  \<^verbatim>\<open>dropout_rate\<close> to every block, and the default of that is 0, with which the dropout
  modules return their input in training mode too (\<open>dropout_m_zero_rate\<close>).
\<close>

lemma make_layer_dropout:
  "b \<in> set (fst (make_layer inp bt planes blocks st p)) \<Longrightarrow> dropout_p (block_dropout b) = p"
  by (cases bt) (auto simp: make_layer_def Let_def)

lemma default_dropout_rate:
  assumes "ResNet_init bt layers nc None ic = Inr r"
    and "b \<in> set (r_layer1 r @ r_layer2 r @ r_layer3 r @ r_layer4 r)"
  shows "dropout_p (block_dropout b) = 0"
proof -
  define ip1 where "ip1 = snd (make_layer 64 bt 64 (layers ! 0) 1 0)"
  define ip2 where "ip2 = snd (make_layer ip1 bt 128 (layers ! 1) 2 0)"
  define ip3 where "ip3 = snd (make_layer ip2 bt 256 (layers ! 2) 2 0)"
  have l: "r_layer1 r = fst (make_layer 64 bt 64 (layers ! 0) 1 0)"
      "r_layer2 r = fst (make_layer ip1 bt 128 (layers ! 1) 2 0)"
      "r_layer3 r = fst (make_layer ip2 bt 256 (layers ! 2) 2 0)"
      "r_layer4 r = fst (make_layer ip3 bt 512 (layers ! 3) 2 0)"
    using assms(1)
    by (auto simp: ResNet_init_def Let_def split_beta ip1_def ip2_def ip3_def split: if_splits)
  from assms(2) show ?thesis unfolding l set_append Un_iff
    using make_layer_dropout by blast
qed

text \<open>
  Claim C7, where the code departs from it. \<^verbatim>\<open>BasicBlock\<close> creates an \<^verbatim>\<open>nn.Dropout\<close>,
  \<^verbatim>\<open>Bottleneck\<close> an \<^verbatim>\<open>nn.Dropout3d\<close>. In training mode with rate 1/2, on one channel of two
  voxels and a generator that keeps on its first decision and drops on its second, the
  dropout of \<^verbatim>\<open>BasicBlock\<close> keeps the first voxel and zeroes the second of the same channel,
  while the dropout of \<^verbatim>\<open>Bottleneck\<close> treats the channel as a whole.
\<close>

theorem BasicBlock_dropout_elementwise:
  "block_dropout (block_init BasicBlock 1 1 1 None (1 / 2)) = Dropout (1 / 2) \<and>
   block_dropout (block_init Bottleneck 1 1 1 None (1 / 2)) = Dropout3d (1 / 2) \<and>
   dropout_m (Dropout (1 / 2)) (two_voxels, example_state True) =
     Inr (two_voxels\<lparr>tdata := [2, 0]\<rparr>, (example_state True)\<lparr>rng_pos := 2\<rparr>) \<and>
   dropout_m (Dropout3d (1 / 2)) (two_voxels, example_state True) =
     Inr (two_voxels\<lparr>tdata := [2, 2]\<rparr>, (example_state True)\<lparr>rng_pos := 1\<rparr>)"
  by (simp add: two_voxels_def example_state_def draws_def scale_kept_def upt_0_2 Let_def)

subsection \<open>The total loss\<close>

text \<open>Broadcasting a well-formed tensor to its own shape changes nothing.\<close>

lemma expand_index_same:
  "i < prod_list sh \<Longrightarrow> ravel sh (map2 (\<lambda>d k. if d = 1 then 0 else k) sh (unravel sh i)) = i"
proof (induction sh arbitrary: i)
  case Nil
  then show ?case by simp
next
  case (Cons d ds)
  have P: "0 < prod_list ds" using Cons.prems by (cases "prod_list ds = 0") simp_all
  have m: "i mod prod_list ds < prod_list ds" using P by simp
  have one: "i div prod_list ds = 0 \<and> i mod prod_list ds = i" if "d = 1"
    using Cons.prems that by simp
  show ?case
  proof (cases "d = 1")
    case True
    then show ?thesis using Cons.IH[OF m] one by simp
  next
    case False
    then show ?thesis using Cons.IH[OF m] by simp
  qed
qed

lemma expand_same:
  assumes "well_formed t"
  shows "expand t (tshape t) = t"
proof -
  have "map (\<lambda>i. tdata t ! expand_index (tshape t) (tshape t) i) [0..<prod_list (tshape t)]
      = map (\<lambda>i. tdata t ! i) [0..<prod_list (tshape t)]"
    by (rule map_cong) (simp_all add: expand_index_def expand_index_same del: One_nat_def)
  also have "\<dots> = tdata t"
    using assms map_nth[of "tdata t"] by (simp add: well_formed_def)
  finally show ?thesis by (simp add: expand_def)
qed

lemma bshape_rev_same: "bshape_rev xs xs = Some xs"
  by (induction xs) simp_all

lemma broadcast_shapes_same: "broadcast_shapes sh sh = Some sh"
  by (simp add: broadcast_shapes_def bshape_rev_same)

lemma broadcast_tensors_same:
  "well_formed a \<Longrightarrow> well_formed b \<Longrightarrow> tshape a = tshape b \<Longrightarrow> broadcast_tensors a b = Inr (a, b)"
  using expand_same[of a] expand_same[of b]
  by (simp add: broadcast_tensors_def broadcast_shapes_same)

text \<open>On a prediction and a target of one shape, \<^verbatim>\<open>MSELoss\<close> is the mean of the squared differences.\<close>

lemma mse_loss_fn_same_shape:
  assumes wf: "well_formed p" "well_formed y" and sh: "tshape p = tshape y" and ne: "tdata p \<noteq> []"
  shows "mse_loss_fn p y =
    Inr (Some ((\<Sum>i<length (tdata p). (tdata p ! i - tdata y ! i)\<^sup>2) / real (length (tdata p))))"
proof -
  have len: "length (tdata p) = length (tdata y)" using wf sh by (simp add: well_formed_def)
  have eq: "map2 (\<lambda>a b. (a - b)\<^sup>2) (tdata p) (tdata y) =
        map (\<lambda>i. (tdata p ! i - tdata y ! i)\<^sup>2) [0..<length (tdata p)]"
  proof (rule nth_equalityI)
    show "length (map2 (\<lambda>a b. (a - b)\<^sup>2) (tdata p) (tdata y)) =
          length (map (\<lambda>i. (tdata p ! i - tdata y ! i)\<^sup>2) [0..<length (tdata p)])"
      using len by simp
  next
    fix i
    assume "i < length (map2 (\<lambda>a b. (a - b)\<^sup>2) (tdata p) (tdata y))"
    then have "i < length (tdata p)" "i < length (tdata y)" using len by simp_all
    then show "map2 (\<lambda>a b. (a - b)\<^sup>2) (tdata p) (tdata y) ! i =
               map (\<lambda>i. (tdata p ! i - tdata y ! i)\<^sup>2) [0..<length (tdata p)] ! i"
      by simp
  qed
  have ney: "tdata y \<noteq> []" using ne len by auto
  show ?thesis
    using ne ney len
    by (simp add: mse_loss_fn_def broadcast_tensors_same[OF wf sh] mean_def eq sum_list_upt)
qed

text \<open>
  On shapes that differ it broadcasts or raises: the prediction \<open>((1), (2))\<close> of shape
  \<open>(2, 1)\<close> against the target \<open>(0, 1)\<close> of shape \<open>(2)\<close> is compared on shape \<open>(2, 2)\<close>, with squared
  differences 1, 0, 4, 1; against a target of shape \<open>(3, 1)\<close> nothing broadcasts.
\<close>

lemma upt_0_4: "[0..<4] = [0, 1, 2, 3]"
  by (simp add: upt_rec)

lemma mse_loss_fn_broadcasts:
  "mse_loss_fn example_reg0 example_target_row = Inr (Some (3 / 2))"
  by (simp add: mse_loss_fn_def broadcast_tensors_def broadcast_shapes_def expand_def
      expand_index_def example_reg0_def example_target_row_def mean_def upt_0_4 Let_def)

lemma mse_loss_fn_raises:
  "mse_loss_fn example_reg0 example_target_three = Inl RuntimeError"
  by (simp add: mse_loss_fn_def broadcast_tensors_def broadcast_shapes_def
      example_reg0_def example_target_three_def)

lemma total_loss_unfold:
  "total_loss iadd model x1 x2 y1 y2 s =
     (case ModelComb_forward iadd model x1 x2 (s\<lparr>training_mode := True\<rparr>) of
        Inl e \<Rightarrow> Inl e
      | Inr ((features_x1, features_x2, reg0, reg1), s') \<Rightarrow>
          (case broadcast_tensors features_x1 features_x2 of
             Inl e \<Rightarrow> Inl e
           | Inr (expanded_x1, expanded_x2) \<Rightarrow>
               (case mse_loss_fn reg0 y1 of
                  Inl e \<Rightarrow> Inl e
                | Inr mse_loss \<Rightarrow>
                    Inr (add_scalar (contrastive_loss expanded_x1 expanded_x2 1) mse_loss))))"
  by (simp add: total_loss_def losses_def split: sum.splits prod.splits)

lemma losses_same_shape:
  assumes "well_formed f1" "well_formed f2" "tshape f1 = tshape f2"
  shows "losses (f1, f2, r0, r1) y1 y2 =
     (case mse_loss_fn r0 y1 of
        Inl e \<Rightarrow> Inl e
      | Inr mse_loss \<Rightarrow> Inr (add_scalar (contrastive_loss f1 f2 1) mse_loss))"
  by (simp add: losses_def broadcast_tensors_same[OF assms])

lemma losses_independent:
  "losses (f1, f2, r0, r1) y1 y2 = losses (f1, f2, r0, r1') y1 y2'"
  by (simp add: losses_def)

lemma losses_value:
  assumes "well_formed f1" "well_formed f2" "tshape f1 = tshape f2"
    and "well_formed r0" "well_formed y1" "tshape r0 = tshape y1" "tdata r0 \<noteq> []"
    and "contrastive_loss f1 f2 1 = Some c"
  shows "losses (f1, f2, r0, r1) y1 y2 =
        Inr (Some (c + (\<Sum>i<length (tdata r0). (tdata r0 ! i - tdata y1 ! i)\<^sup>2) / real (length (tdata r0))))"
  using assms(8)
  by (simp add: losses_same_shape[OF assms(1-3)] mse_loss_fn_same_shape[OF assms(4-7)])

text \<open>
  Claim C3. The total loss of the training cell is the contrastive loss of
  \<open>(features_x1, features_x2)\<close> at margin 1 plus the loss of \<^verbatim>\<open>MSELoss\<close> on
  \<open>(prediction_x1, y1)\<close>, with no weights, and the cell raises where the forward pass, the
  broadcast of the two feature maps or \<^verbatim>\<open>MSELoss\<close> raises. On feature maps of one shape
  the broadcast changes nothing. The total loss is the same whatever \<open>prediction_x2\<close> and
  \<open>y2\<close> are. For a prediction and a target of one shape with at least one element the
  second summand is the mean of the squared differences.
\<close>

theorem total_loss_sum:
  "total_loss iadd model xa xb ya yb s =
     (case ModelComb_forward iadd model xa xb (s\<lparr>training_mode := True\<rparr>) of
        Inl e \<Rightarrow> Inl e
      | Inr ((features_x1, features_x2, reg0, reg1), s') \<Rightarrow>
          (case broadcast_tensors features_x1 features_x2 of
             Inl e \<Rightarrow> Inl e
           | Inr (expanded_x1, expanded_x2) \<Rightarrow>
               (case mse_loss_fn reg0 ya of
                  Inl e \<Rightarrow> Inl e
                | Inr mse_loss \<Rightarrow>
                    Inr (add_scalar (contrastive_loss expanded_x1 expanded_x2 1) mse_loss)))) \<and>
   (well_formed fa \<and> well_formed fb \<and> tshape fa = tshape fb \<longrightarrow>
      losses (fa, fb, pred_a, pred_b) ya yb =
        (case mse_loss_fn pred_a ya of
           Inl e \<Rightarrow> Inl e
         | Inr mse_loss \<Rightarrow> Inr (add_scalar (contrastive_loss fa fb 1) mse_loss))) \<and>
   losses (fa, fb, pred_a, pred_b) ya yb = losses (fa, fb, pred_a, pred_b') ya yb' \<and>
   (well_formed fa \<and> well_formed fb \<and> tshape fa = tshape fb \<and>
    well_formed pred_a \<and> well_formed ya \<and> tshape pred_a = tshape ya \<and> tdata pred_a \<noteq> [] \<and>
    contrastive_loss fa fb 1 = Some c \<longrightarrow>
      losses (fa, fb, pred_a, pred_b) ya yb =
        Inr (Some (c + (\<Sum>i<length (tdata pred_a). (tdata pred_a ! i - tdata ya ! i)\<^sup>2)
                       / real (length (tdata pred_a)))))"
  using total_loss_unfold[of iadd model xa xb ya yb s]
    losses_same_shape[of fa fb pred_a pred_b ya yb]
    losses_independent[of fa fb pred_a pred_b ya yb pred_b' yb']
    losses_value[of fa fb pred_a ya c pred_b yb]
  by blast

text \<open>Contrastive loss 1 and squared errors 1 and 4 over two samples.\<close>

theorem total_loss_sum_witness:
  "losses (feat_zero, feat_eps, example_reg0, example_y1) example_y1 example_reg0 = Inr (Some (1 + 5 / 2))"
proof -
  have c: "contrastive_loss feat_zero feat_eps 1 = Some 1"
    by (simp add: contrastive_loss_distances distances_near)
  have pre: "well_formed feat_zero \<and> well_formed feat_eps \<and> tshape feat_zero = tshape feat_eps \<and>
    well_formed example_reg0 \<and> well_formed example_y1 \<and> tshape example_reg0 = tshape example_y1 \<and>
    tdata example_reg0 \<noteq> [] \<and> contrastive_loss feat_zero feat_eps 1 = Some 1"
    using c by (simp add: well_formed_def feat_zero_def feat_eps_def example_reg0_def example_y1_def)
  have "losses (feat_zero, feat_eps, example_reg0, example_y1) example_y1 example_reg0 =
        Inr (Some (1 + (\<Sum>i<length (tdata example_reg0). (tdata example_reg0 ! i - tdata example_y1 ! i)\<^sup>2)
                  / real (length (tdata example_reg0))))"
    using pre total_loss_sum[where fa=feat_zero and fb=feat_eps and pred_a=example_reg0
        and pred_b=example_y1 and ya=example_y1 and yb=example_reg0 and c=1]
    by blast
  also have "(\<Sum>i<length (tdata example_reg0). (tdata example_reg0 ! i - tdata example_y1 ! i)\<^sup>2) = 5"
    by (simp add: example_reg0_def example_y1_def lessThan_Suc numeral_2_eq_2)
  also have "real (length (tdata example_reg0)) = 2" by (simp add: example_reg0_def)
  finally show ?thesis .
qed

end
